theory Spec2Isabelle
  imports Complex_Main
begin

section \<open>Multinomial logistic regression readout (esnlm/readouts/logistic.py)\<close>

text \<open>
  The module defines one class, \<open>LogisticRegression\<close>, on top of numpy. Its methods are
  embedded below as functions on an explicit classifier record. Four routines of the
  package that the class calls (\<open>softmax\<close> of \<open>esnlm.utils\<close>; \<open>gradient\<close>, \<open>hessian\<close> and
  \<open>newton_raphson\<close> of \<open>esnlm.optimization\<close>) and scipy's \<open>minimize\<close> are not part of the
  module: they are parameters of the embedding, collected in the record \<open>externals\<close>, and
  every theorem about \<open>fit\<close> holds for all of them. They are taken to be functions of
  their arguments that either return an array or raise; the solver, which \<open>fit\<close> asks to
  report, also returns what it prints.

  Array entries and objective values are real numbers. Rounding, and results that IEEE
  arithmetic reports as \<open>inf\<close> or \<open>nan\<close>, are not represented.
\<close>

subsection \<open>Exceptions\<close>

datatype error = ValueError | IndexError | AxisError | ExternalError string

fun bind_result :: "error + 'a \<Rightarrow> ('a \<Rightarrow> error + 'b) \<Rightarrow> error + 'b" where
  "bind_result (Inl e) f = Inl e"
| "bind_result (Inr v) f = f v"

subsection \<open>numpy arrays: a shape and the entries in row-major order\<close>

record ndarray =
  shape :: "nat list"
  data :: "real list"

definition wf_ndarray :: "ndarray \<Rightarrow> bool" where
  "wf_ndarray a \<longleftrightarrow> length (data a) = prod_list (shape a)"

definition np_size :: "ndarray \<Rightarrow> nat" where
  "np_size a = prod_list (shape a)"

text \<open>\<open>a.reshape(shp)\<close>: the entries stay, the shape changes; numpy raises ValueError when
  the new shape does not hold exactly \<open>a.size\<close> entries.\<close>

definition np_reshape :: "ndarray \<Rightarrow> nat list \<Rightarrow> error + ndarray" where
  "np_reshape a shp =
     (if prod_list shp = np_size a then Inr (a\<lparr>shape := shp\<rparr>) else Inl ValueError)"

text \<open>\<open>np.dot(a, b)\<close>. A 0-d operand (whose single entry is the head of its data)
  multiplies the other one entrywise. Otherwise the
  last axis of \<open>a\<close> is contracted with the second-to-last axis of \<open>b\<close> (its only axis
  when \<open>b\<close> is 1-d), and numpy raises ValueError when the two lengths differ:
  \<open>dot(a, b)[i, j, m] = sum_k a[i, k] * b[j, k, m]\<close>.\<close>

definition np_dot :: "ndarray \<Rightarrow> ndarray \<Rightarrow> error + ndarray" where
  "np_dot a b =
     (if shape a = [] then Inr \<lparr>shape = shape b, data = map (\<lambda>v. hd (data a) * v) (data b)\<rparr>
      else if shape b = [] then Inr \<lparr>shape = shape a, data = map (\<lambda>v. v * hd (data b)) (data a)\<rparr>
      else
        let K = last (shape a);
            A = butlast (shape a);
            K' = (if length (shape b) = 1 then hd (shape b) else last (butlast (shape b)));
            B = (if length (shape b) = 1 then [] else butlast (butlast (shape b)));
            M = (if length (shape b) = 1 then [] else [last (shape b)]);
            m = prod_list M
        in if K \<noteq> K' then Inl ValueError
           else Inr \<lparr>shape = A @ B @ M,
                     data = concat (map (\<lambda>i. concat (map (\<lambda>j. map (\<lambda>c.
                              sum_list (map (\<lambda>k. data a ! (i * K + k) * data b ! ((j * K + k) * m + c))
                                        [0..<K]))
                              [0..<m]) [0..<prod_list B])) [0..<prod_list A])\<rparr>)"

text \<open>Broadcasting of two shapes, aligned at their last axes: two lengths are compatible
  when they are equal or one of them is 1; otherwise numpy raises ValueError.\<close>

fun broadcast_rev :: "nat list \<Rightarrow> nat list \<Rightarrow> error + nat list" where
  "broadcast_rev [] ys = Inr ys"
| "broadcast_rev (x # xs) [] = Inr (x # xs)"
| "broadcast_rev (x # xs) (y # ys) =
     (if x = y \<or> y = 1 then bind_result (broadcast_rev xs ys) (\<lambda>r. Inr (x # r))
      else if x = 1 then bind_result (broadcast_rev xs ys) (\<lambda>r. Inr (y # r))
      else Inl ValueError)"

definition broadcast_shapes :: "nat list \<Rightarrow> nat list \<Rightarrow> error + nat list" where
  "broadcast_shapes s t = bind_result (broadcast_rev (rev s) (rev t)) (\<lambda>r. Inr (rev r))"

definition pad_shape :: "nat \<Rightarrow> nat list \<Rightarrow> nat list" where
  "pad_shape n s = replicate (n - length s) 1 @ s"

text \<open>The entries of an array of (padded) shape \<open>s # ss\<close> seen at the broadcast shape
  \<open>t # ts\<close>: an axis of equal length is walked block by block, an axis of length 1 is
  repeated.\<close>

fun bcast :: "nat list \<Rightarrow> nat list \<Rightarrow> real list \<Rightarrow> real list" where
  "bcast (t # ts) (s # ss) xs =
     (if s = t
      then concat (map (\<lambda>i. bcast ts ss (take (prod_list ss) (drop (i * prod_list ss) xs))) [0..<t])
      else concat (replicate t (bcast ts ss xs)))"
| "bcast [] ss xs = xs"
| "bcast (t # ts) [] xs = xs"

definition broadcast_to :: "nat list \<Rightarrow> ndarray \<Rightarrow> real list" where
  "broadcast_to t a = bcast t (pad_shape (length t) (shape a)) (data a)"

text \<open>\<open>x ** y\<close> on float64 scalars, where the result is a real number: \<open>x ** 0 = 1\<close> for
  every \<open>x\<close> (also \<open>0 ** 0\<close>), \<open>0 ** y = 0\<close> for positive \<open>y\<close>, a negative base with an
  integral exponent keeps the sign rule. Where IEEE gives \<open>inf\<close> (zero to a negative
  power) or \<open>nan\<close> (negative base, fractional exponent) there is no real result, and
  the value 0 given here is not what numpy computes. On a non-negative base and a
  non-negative exponent the function is numpy's power; the theorem on the stopping rule
  and the bound on the arguments of the logarithm assume posteriors and targets without
  negative entries.\<close>

definition float_power :: "real \<Rightarrow> real \<Rightarrow> real" where
  "float_power x y =
     (if y = 0 then 1
      else if 0 < x then x powr y
      else if x = 0 then 0
      else if y = of_int \<lfloor>y\<rfloor> then (if even \<lfloor>y\<rfloor> then (- x) powr y else - ((- x) powr y))
      else 0)"

definition np_power :: "ndarray \<Rightarrow> ndarray \<Rightarrow> error + ndarray" where
  "np_power a b =
     bind_result (broadcast_shapes (shape a) (shape b)) (\<lambda>s.
       Inr \<lparr>shape = s,
            data = map (\<lambda>(u, v). float_power u v) (zip (broadcast_to s a) (broadcast_to s b))\<rparr>)"

text \<open>\<open>np.prod(a, axis=1)\<close>: the product along the second axis; numpy raises AxisError
  when the array has fewer than two axes.\<close>

definition np_prod_axis1 :: "ndarray \<Rightarrow> error + ndarray" where
  "np_prod_axis1 a =
     (case shape a of
        d0 # d1 # rest \<Rightarrow>
          Inr \<lparr>shape = d0 # rest,
               data = concat (map (\<lambda>i. map (\<lambda>r.
                        prod_list (map (\<lambda>j. data a ! ((i * d1 + j) * prod_list rest + r)) [0..<d1]))
                        [0..<prod_list rest]) [0..<d0])\<rparr>
      | _ \<Rightarrow> Inl AxisError)"

definition np_add_scalar :: "ndarray \<Rightarrow> real \<Rightarrow> ndarray" where
  "np_add_scalar a c = a\<lparr>data := map (\<lambda>v. v + c) (data a)\<rparr>"

text \<open>\<open>np.log\<close>, entry by entry. At an argument that is not positive numpy gives \<open>-inf\<close>
  or \<open>nan\<close>, which have no real counterpart; the log-likelihood is shown below to take
  logarithms of positive numbers only.\<close>

definition np_log :: "ndarray \<Rightarrow> ndarray" where
  "np_log a = a\<lparr>data := map ln (data a)\<rparr>"

definition np_sum :: "ndarray \<Rightarrow> real" where
  "np_sum a = sum_list (data a)"

definition np_negative :: "ndarray \<Rightarrow> ndarray" where
  "np_negative a = a\<lparr>data := map uminus (data a)\<rparr>"

definition np_squeeze :: "ndarray \<Rightarrow> ndarray" where
  "np_squeeze a = a\<lparr>shape := filter (\<lambda>d. d \<noteq> 1) (shape a)\<rparr>"

text \<open>\<open>np.ones((y.shape[0], ))\<close>: \<open>y.shape[0]\<close> raises IndexError on a 0-d array.\<close>

definition np_ones_rows :: "ndarray \<Rightarrow> error + ndarray" where
  "np_ones_rows y =
     (case shape y of [] \<Rightarrow> Inl IndexError
      | n # _ \<Rightarrow> Inr \<lparr>shape = [n], data = replicate n 1\<rparr>)"

definition np_eye :: "nat \<Rightarrow> ndarray" where
  "np_eye k = \<lparr>shape = [k, k],
              data = concat (map (\<lambda>i. map (\<lambda>j. if i = j then 1 else 0) [0..<k]) [0..<k])\<rparr>"

text \<open>A Python list of integers used as an index is first made an array. Integers of
  the int64 range give an int64 array. A list without negative entries and below \<open>2^64\<close>
  gives a uint64 array, whose entries from \<open>2^63\<close> on wrap to negative indices. Any
  other list does not give an integer array, and indexing with it raises IndexError.\<close>

definition np_index_array :: "int list \<Rightarrow> error + int list" where
  "np_index_array ls =
     (if list_all (\<lambda>l. - (2 ^ 63) \<le> l \<and> l < 2 ^ 63) ls then Inr ls
      else if list_all (\<lambda>l. 0 \<le> l \<and> l < 2 ^ 64) ls
      then Inr (map (\<lambda>l. if 2 ^ 63 \<le> l then l - 2 ^ 64 else l) ls)
      else Inl IndexError)"

text \<open>\<open>a[ls]\<close> for a Python list \<open>ls\<close> of integers: one block of the first axis per
  index, negative indices counting from the end, IndexError when an index is out of
  range (or when the array is 0-d).\<close>

definition np_take_rows :: "ndarray \<Rightarrow> int list \<Rightarrow> error + ndarray" where
  "np_take_rows a ls =
     (case shape a of
        [] \<Rightarrow> Inl IndexError
      | d0 # rest \<Rightarrow>
          bind_result (np_index_array ls) (\<lambda>idx.
            if list_all (\<lambda>l. - int d0 \<le> l \<and> l < int d0) idx
            then Inr \<lparr>shape = length idx # rest,
                      data = concat (map (\<lambda>l. take (prod_list rest)
                                                (drop (nat (l mod int d0) * prod_list rest) (data a))) idx)\<rparr>
            else Inl IndexError))"

subsection \<open>The collaborators of the class\<close>

text \<open>What the program prints, one item per print statement of \<open>fit\<close> (the first two end
  in a comma and print no line break, the last one prints a line) or per line that the
  solver reports.\<close>

datatype printed = PStr string | PInt nat

text \<open>\<open>fit\<close> calls scipy's \<open>minimize\<close> with \<open>disp\<close> set, so the solver writes its report
  to the standard output: its result comes with what it printed.\<close>

record minimize_options =
  maxiter :: nat
  xtol :: real
  disp :: bool

record externals =
  softmax :: "ndarray \<Rightarrow> error + ndarray"
  gradient :: "ndarray \<Rightarrow> ndarray \<Rightarrow> ndarray \<Rightarrow> ndarray \<Rightarrow> error + ndarray"
  hessian :: "ndarray \<Rightarrow> ndarray \<Rightarrow> ndarray \<Rightarrow> ndarray \<Rightarrow> error + ndarray"
  newton_raphson :: "ndarray \<Rightarrow> ndarray \<Rightarrow> ndarray \<Rightarrow> (ndarray \<Rightarrow> error + real) \<Rightarrow> error + ndarray"
  minimize :: "(ndarray \<Rightarrow> error + real) \<Rightarrow> ndarray \<Rightarrow> (ndarray \<Rightarrow> error + ndarray) \<Rightarrow>
               (ndarray \<Rightarrow> error + ndarray) \<Rightarrow> string \<Rightarrow> minimize_options \<Rightarrow>
               (error + ndarray) \<times> printed list"

subsection \<open>The class LogisticRegression\<close>

record classifier =
  input_dim :: nat
  output_dim :: nat
  verbose :: bool
  params :: ndarray

text \<open>The constructor. \<open>rnd\<close> is the sequence of draws that \<open>np.random.rand\<close> takes from
  the global generator.\<close>

definition np_random_rand :: "(nat \<Rightarrow> real) \<Rightarrow> nat \<Rightarrow> nat \<Rightarrow> ndarray" where
  "np_random_rand rnd d0 d1 = \<lparr>shape = [d0, d1], data = map rnd [0..<d0 * d1]\<rparr>"

definition init :: "(nat \<Rightarrow> real) \<Rightarrow> nat \<Rightarrow> nat \<Rightarrow> bool \<Rightarrow> classifier" where
  "init rnd d k vb =
     \<lparr>input_dim = d, output_dim = k, verbose = vb,
      params = (let r = np_random_rand rnd d k
                in r\<lparr>data := map (\<lambda>v. 3 * (- 1 + 2 * v) / sqrt (real d)) (data r)\<rparr>)\<rparr>"

definition py_given_x :: "externals \<Rightarrow> classifier \<Rightarrow> ndarray \<Rightarrow> error + ndarray" where
  "py_given_x E c x = bind_result (np_dot x (params c)) (softmax E)"

definition log_likelihood :: "externals \<Rightarrow> classifier \<Rightarrow> ndarray \<Rightarrow> ndarray \<Rightarrow> error + real" where
  "log_likelihood E c x y =
     bind_result (py_given_x E c x) (\<lambda>post.
     bind_result (np_power post y) (\<lambda>pw.
     bind_result (np_prod_axis1 pw) (\<lambda>lik.
       Inr (np_sum (np_log (np_add_scalar lik (1 / 10 ^ 7)))))))"

text \<open>The label argument of \<open>fit\<close>: a Python list of integer class labels, or an array.\<close>

datatype target = PyList "int list" | NdArray ndarray

text \<open>Lines 98-99: \<open>if type(y) == type([]): y = np.eye(self.output_dim)[y]\<close>.\<close>

definition expand_labels :: "nat \<Rightarrow> target \<Rightarrow> error + ndarray" where
  "expand_labels k y =
     (case y of PyList ls \<Rightarrow> np_take_rows (np_eye k) ls | NdArray a \<Rightarrow> Inr a)"

text \<open>The closure \<open>_objective_function\<close> of \<open>fit\<close> (lines 101-104); \<open>shp\<close> is
  \<open>self.params.shape\<close>, which does not change while \<open>fit\<close> runs its optimiser.\<close>

definition objective_function ::
  "externals \<Rightarrow> ndarray \<Rightarrow> ndarray \<Rightarrow> nat list \<Rightarrow> ndarray \<Rightarrow> error + real" where
  "objective_function E x y shp p =
     bind_result (np_reshape p shp) (\<lambda>p2.
     bind_result (np_dot x p2) (\<lambda>z.
     bind_result (softmax E z) (\<lambda>py.
     bind_result (np_power py y) (\<lambda>pw.
     bind_result (np_prod_axis1 pw) (\<lambda>lik.
       Inr (np_sum (np_log (np_add_scalar lik (1 / 10 ^ 7)))))))))"

text \<open>One pass through the body of the loop, lines 115-121: the new parameters and the
  objective value at them. \<open>f\<close> is the closure \<open>_objective_function\<close>.\<close>

definition nr_iteration ::
  "externals \<Rightarrow> ndarray \<Rightarrow> ndarray \<Rightarrow> (ndarray \<Rightarrow> error + real) \<Rightarrow> ndarray \<Rightarrow> error + ndarray \<times> real" where
  "nr_iteration E x y f p =
     bind_result (np_dot x p) (\<lambda>z.
     bind_result (softmax E z) (\<lambda>post.
     bind_result (np_ones_rows y) (\<lambda>w.
     bind_result (gradient E x y post w) (\<lambda>grad.
     bind_result (np_ones_rows y) (\<lambda>w'.
     bind_result (hessian E x y post w') (\<lambda>hess.
     bind_result (newton_raphson E grad hess p f) (\<lambda>p'.
     bind_result (f p') (\<lambda>new_value.
       Inr (p', new_value)))))))))"

text \<open>The loop \<open>for i in range(max_iter)\<close>, lines 111-124, over the list of indices that
  \<open>range\<close> builds. It returns the value of \<open>params\<close> at the exit, or the exception, and
  what was printed.\<close>

fun nr_loop ::
  "externals \<Rightarrow> bool \<Rightarrow> ndarray \<Rightarrow> ndarray \<Rightarrow> (ndarray \<Rightarrow> error + real) \<Rightarrow>
   nat list \<Rightarrow> ndarray \<Rightarrow> real \<Rightarrow> (error + ndarray) \<times> printed list" where
  "nr_loop E vb x y f [] p old_value = (Inr p, [])"
| "nr_loop E vb x y f (i # is) p old_value =
     (let out = (if vb then [PInt i] else [])
      in case nr_iteration E x y f p of
           Inl e \<Rightarrow> (Inl e, out)
         | Inr (p', new_value) \<Rightarrow>
             (if new_value < old_value + 1 then (Inr p', out)
              else (let (r, out') = nr_loop E vb x y f is p' new_value in (r, out @ out'))))"

text \<open>The callbacks handed to scipy's \<open>minimize\<close>, lines 133-142.\<close>

definition obj :: "externals \<Rightarrow> ndarray \<Rightarrow> ndarray \<Rightarrow> nat list \<Rightarrow> ndarray \<Rightarrow> error + real" where
  "obj E x y shp p = bind_result (objective_function E x y shp p) (\<lambda>v. Inr (- v))"

definition grd :: "externals \<Rightarrow> ndarray \<Rightarrow> ndarray \<Rightarrow> nat list \<Rightarrow> ndarray \<Rightarrow> error + ndarray" where
  "grd E x y shp p =
     bind_result (np_reshape p shp) (\<lambda>p2.
     bind_result (np_dot x p2) (\<lambda>z.
     bind_result (softmax E z) (\<lambda>post.
     bind_result (np_ones_rows y) (\<lambda>w.
     bind_result (gradient E x y post w) (\<lambda>g.
       Inr (np_negative (np_squeeze g)))))))"

definition hsn :: "externals \<Rightarrow> ndarray \<Rightarrow> ndarray \<Rightarrow> nat list \<Rightarrow> ndarray \<Rightarrow> error + ndarray" where
  "hsn E x y shp p =
     bind_result (np_reshape p shp) (\<lambda>p2.
     bind_result (np_dot x p2) (\<lambda>z.
     bind_result (softmax E z) (\<lambda>post.
     bind_result (np_ones_rows y) (\<lambda>w.
     bind_result (hessian E x y post w) (\<lambda>h.
       Inr (np_negative h))))))"

definition fit_options :: minimize_options where
  "fit_options = \<lparr>maxiter = 100, xtol = 1 / 10 ^ 4, disp = True\<rparr>"

text \<open>The branch for \<open>method == 'Newton-Raphson'\<close>, lines 110-128. The header is
  printed by line 110, outside the test of \<open>self.verbose\<close>.\<close>

definition fit_newton_raphson ::
  "externals \<Rightarrow> classifier \<Rightarrow> ndarray \<Rightarrow> ndarray \<Rightarrow> int \<Rightarrow> real \<Rightarrow>
   (error + ndarray) \<times> classifier \<times> printed list" where
  "fit_newton_raphson E c x yy max_iter old_value =
     (let shp = shape (params c);
          hdr = [PStr ''... Newton-Raphson:''];
          (r, out) = nr_loop E (verbose c) x yy (objective_function E x yy shp)
                       [0..<nat max_iter] (params c) old_value
      in case r of
           Inl e \<Rightarrow> (Inl e, c, hdr @ out)
         | Inr p \<Rightarrow>
             (case np_reshape p shp of
                Inl e \<Rightarrow> (Inl e, c, hdr @ out)
              | Inr p2 \<Rightarrow>
                  (Inr p, c\<lparr>params := p2\<rparr>,
                   hdr @ out @ (if verbose c then [PStr ''The End.''] else []))))"

text \<open>The \<open>else\<close> branch, lines 131-148: every other method string goes to scipy's
  \<open>minimize\<close>. \<open>fit\<close> prints nothing itself here; the output is the solver's.\<close>

definition fit_minimize ::
  "externals \<Rightarrow> classifier \<Rightarrow> ndarray \<Rightarrow> ndarray \<Rightarrow> string \<Rightarrow>
   (error + ndarray) \<times> classifier \<times> printed list" where
  "fit_minimize E c x yy method =
     (let shp = shape (params c)
      in case np_reshape (params c) [np_size (params c)] of
           Inl e \<Rightarrow> (Inl e, c, [])
         | Inr p1 \<Rightarrow>
             (case minimize E (obj E x yy shp) p1 (grd E x yy shp) (hsn E x yy shp) method
                     fit_options of
                (Inl e, out) \<Rightarrow> (Inl e, c, out)
              | (Inr res, out) \<Rightarrow>
                  (case np_reshape res shp of
                     Inl e \<Rightarrow> (Inl e, c, out)
                   | Inr p2 \<Rightarrow> (Inr res, c\<lparr>params := p2\<rparr>, out))))"

text \<open>\<open>fit\<close>, lines 98-150. The result is the returned array or the exception raised, the
  classifier after the call, and what the call printed. The local \<open>params\<close> starts as a
  copy of \<open>self.params\<close>, and the objective is evaluated once before the method is
  looked at. \<open>range(max_iter)\<close> is empty for \<open>max_iter \<le> 0\<close>.\<close>

definition fit ::
  "externals \<Rightarrow> classifier \<Rightarrow> ndarray \<Rightarrow> target \<Rightarrow> string \<Rightarrow> int \<Rightarrow>
   (error + ndarray) \<times> classifier \<times> printed list" where
  "fit E c x y method max_iter =
     (case expand_labels (output_dim c) y of
        Inl e \<Rightarrow> (Inl e, c, [])
      | Inr yy \<Rightarrow>
          (case objective_function E x yy (shape (params c)) (params c) of
             Inl e \<Rightarrow> (Inl e, c, [])
           | Inr old_value \<Rightarrow>
               if method = ''Newton-Raphson''
               then fit_newton_raphson E c x yy max_iter old_value
               else fit_minimize E c x yy method))"

text \<open>The call \<open>fit(x, y)\<close> with the defaults of the signature on line 76.\<close>

definition fit_default ::
  "externals \<Rightarrow> classifier \<Rightarrow> ndarray \<Rightarrow> target \<Rightarrow> (error + ndarray) \<times> classifier \<times> printed list" where
  "fit_default E c x y = fit E c x y ''Newton-Raphson'' 20"

subsection \<open>Reference formula and example data\<close>

text \<open>The formula that the design document gives for the log-likelihood of an
  \<open>n \<times> k\<close> posterior matrix and an \<open>n \<times> k\<close> target matrix: the sum over the samples
  \<open>i\<close> of \<open>log (prod_c posterior[i,c] ^ Y[i,c] + 1e-7)\<close>.\<close>

definition log_likelihood_spec :: "ndarray \<Rightarrow> ndarray \<Rightarrow> nat \<Rightarrow> nat \<Rightarrow> real" where
  "log_likelihood_spec post y n k =
     (\<Sum>i<n. ln ((\<Prod>j<k. float_power (data post ! (i * k + j)) (data y ! (i * k + j))) + 1 / 10 ^ 7))"

text \<open>One-hot rows as the design document describes them: one row per label, with a 1
  in the column of the label (a negative label counts from the last class) and 0
  elsewhere.\<close>

definition one_hot_rows :: "nat \<Rightarrow> int list \<Rightarrow> ndarray" where
  "one_hot_rows k ls =
     \<lparr>shape = [length ls, k],
      data = concat (map (\<lambda>l. map (\<lambda>j. if int j = l mod int k then 1 else 0) [0..<k]) ls)\<rparr>"

text \<open>numpy's rule for two axis lengths that meet in a broadcast.\<close>

definition broadcastable :: "nat \<Rightarrow> nat \<Rightarrow> bool" where
  "broadcastable a b \<longleftrightarrow> a = b \<or> a = 1 \<or> b = 1"

text \<open>Modelled from the spec: \<open>softmax\<close> of \<open>esnlm.utils\<close> is not among the source
  files. The design document describes it on a score matrix: in each row the row maximum
  is subtracted before exponentiating, and the row is divided by its sum. It is used
  below only to run \<open>fit\<close> on examples.\<close>

definition softmax_spec :: "ndarray \<Rightarrow> error + ndarray" where
  "softmax_spec z =
     (case shape z of
        [n, k] \<Rightarrow>
          Inr \<lparr>shape = [n, k],
               data = concat (map (\<lambda>i.
                        let row = take k (drop (i * k) (data z));
                            ex = map (\<lambda>v. exp (v - Max (set row))) row
                        in map (\<lambda>u. u / sum_list ex) ex) [0..<n])\<rparr>
      | _ \<Rightarrow> Inl (ExternalError ''softmax''))"

text \<open>Collaborators for the examples: the softmax above, gradient and Hessian routines
  that hand back the posterior, a Newton step \<open>step\<close> chosen by the example, and a
  solver that makes one step against the gradient callback from its starting point and
  reports one line when \<open>disp\<close> is set.\<close>

definition demo_externals :: "(ndarray \<Rightarrow> error + ndarray) \<Rightarrow> externals" where
  "demo_externals step =
     \<lparr>softmax = softmax_spec,
      gradient = (\<lambda>x y post w. Inr post),
      hessian = (\<lambda>x y post w. Inr post),
      newton_raphson = (\<lambda>g h p f. step p),
      minimize = (\<lambda>f p g h m opts.
                    case g p of
                      Inl e \<Rightarrow> (Inl e, [])
                    | Inr d \<Rightarrow>
                        (Inr (p\<lparr>data := map (\<lambda>(u, v). u - v) (zip (data p) (data d))\<rparr>),
                         if disp opts then [PStr ''Optimization terminated successfully.''] else []))\<rparr>"

text \<open>The data of the docstring of \<open>fit\<close>, and a classifier with two inputs and two classes
  whose parameters are all zero.\<close>

definition doc_x :: ndarray where
  "doc_x = \<lparr>shape = [2, 2], data = [1, 0, 0, 1]\<rparr>"

definition doc_y :: ndarray where
  "doc_y = \<lparr>shape = [2, 2], data = [0, 1, 1, 0]\<rparr>"

definition zero_classifier :: "bool \<Rightarrow> classifier" where
  "zero_classifier vb =
     \<lparr>input_dim = 2, output_dim = 2, verbose = vb, params = \<lparr>shape = [2, 2], data = [0, 0, 0, 0]\<rparr>\<rparr>"

text \<open>Two Newton steps for the examples: one that always proposes the identity matrix
  (on the docstring data this lowers the likelihood), and one that raises.\<close>

definition away_step :: "ndarray \<Rightarrow> error + ndarray" where
  "away_step p = Inr \<lparr>shape = [2, 2], data = [1, 0, 0, 1]\<rparr>"

definition failing_step :: "ndarray \<Rightarrow> error + ndarray" where
  "failing_step p = Inl (ExternalError ''singular matrix'')"

section \<open>Properties\<close>

subsection \<open>Auxiliary facts\<close>

lemmas fit_defs = fit_def fit_newton_raphson_def fit_minimize_def expand_labels_def
  objective_function_def nr_iteration_def obj_def grd_def hsn_def fit_options_def

lemmas demo_defs = demo_externals_def softmax_spec_def doc_x_def doc_y_def zero_classifier_def

lemma bind_result_eq_Inr: "bind_result m f = Inr v \<longleftrightarrow> (\<exists>u. m = Inr u \<and> f u = Inr v)"
  by (cases m) simp_all

lemma np_reshape_shape: "np_reshape a shp = Inr b \<Longrightarrow> shape b = shp"
  by (auto simp: np_reshape_def split: if_splits)

lemma np_reshape_same: "np_reshape a (shape a) = Inr a"
  by (simp add: np_reshape_def np_size_def)

lemma np_dot_matrix:
  "shape a = [n, d] \<Longrightarrow> shape b = [d, k] \<Longrightarrow> \<exists>z. np_dot a b = Inr z \<and> shape z = [n, k]"
  by (simp add: np_dot_def Let_def)

lemma broadcast_rev_same: "broadcast_rev s s = Inr s"
  by (induction s) simp_all

lemma broadcast_shapes_same: "broadcast_shapes s s = Inr s"
  by (simp add: broadcast_shapes_def broadcast_rev_same)

lemma np_power_same_shape:
  "shape a = s \<Longrightarrow> shape b = s \<Longrightarrow> \<exists>r. np_power a b = Inr r \<and> shape r = s"
  by (simp add: np_power_def broadcast_shapes_same)

lemma np_prod_axis1_matrix: "shape a = [n, k] \<Longrightarrow> \<exists>l. np_prod_axis1 a = Inr l \<and> shape l = [n]"
  by (simp add: np_prod_axis1_def)

text \<open>On a sample matrix, a parameter matrix and a target matrix whose shapes fit, and
  with a softmax that returns a matrix of the shape it is given, the objective is
  defined.\<close>

lemma objective_function_defined:
  assumes "shape x = [n, d]" and "prod_list shp = np_size p" and "shp = [d, k]" and "shape y = [n, k]"
    and "\<forall>z. shape z = [n, k] \<longrightarrow> (\<exists>q. softmax E z = Inr q \<and> shape q = [n, k])"
  shows "\<exists>v. objective_function E x y shp p = Inr v"
proof -
  have r: "np_reshape p shp = Inr (p\<lparr>shape := shp\<rparr>)" using assms(2) by (simp add: np_reshape_def)
  obtain z where z: "np_dot x (p\<lparr>shape := shp\<rparr>) = Inr z" "shape z = [n, k]"
    using np_dot_matrix [of x n d "p\<lparr>shape := shp\<rparr>" k] assms(1,3) by auto
  obtain q where q: "softmax E z = Inr q" "shape q = [n, k]" using assms(5) z(2) by blast
  obtain pw where pw: "np_power q y = Inr pw" "shape pw = [n, k]"
    using np_power_same_shape [of q "[n, k]" y] q(2) assms(4) by auto
  obtain l where l: "np_prod_axis1 pw = Inr l" using np_prod_axis1_matrix [OF pw(2)] by auto
  show ?thesis by (simp add: objective_function_def r z q pw l)
qed

subsection \<open>The Newton-Raphson loop\<close>

lemma nr_loop_result_verbose:
  "fst (nr_loop E vb x y f is p v) = fst (nr_loop E vb' x y f is p v)"
  by (induction "is" arbitrary: p v) (auto simp: Let_def split_beta split: sum.splits)

lemma nr_loop_quiet: "snd (nr_loop E False x y f is p v) = []"
  by (induction "is" arbitrary: p v) (auto simp: Let_def split: sum.splits prod.splits)

lemma nr_loop_cong_externals:
  assumes "\<And>p. nr_iteration E' x a f p = nr_iteration E x a f p"
  shows "nr_loop E' vb x a f is p v = nr_loop E vb x a f is p v"
  by (induction "is" arbitrary: p v) (auto simp: assms Let_def split: sum.splits)

text \<open>The run of the loop from index \<open>a\<close> with a budget of \<open>N\<close> passes. \<open>ps\<close> and \<open>vs\<close>
  are the iterates and their objective values; pass \<open>m\<close> is the first one whose
  improvement is below 1, or the last one of the budget.\<close>

lemma nr_loop_run:
  assumes "\<forall>i<m. nr_iteration E x y f (ps (a + i)) = Inr (ps (a + Suc i), vs (a + Suc i))"
    and "\<forall>i. Suc i < m \<longrightarrow> \<not> vs (a + Suc i) - vs (a + i) < 1"
    and "m = N \<or> (0 < m \<and> vs (a + m) - vs (a + m - 1) < 1)"
    and "m \<le> N"
  shows "nr_loop E vb x y f [a..<a + N] (ps a) (vs a)
           = (Inr (ps (a + m)), if vb then map PInt [a..<a + m] else [])"
  using assms
proof (induction m arbitrary: a N)
  case 0
  then show ?case by simp
next
  case (Suc m)
  from Suc.prems(4) obtain N' where N: "N = Suc N'" by (cases N) auto
  have up: "[a..<a + N] = a # [Suc a..<Suc a + N']" by (simp add: N upt_conv_Cons)
  have it: "nr_iteration E x y f (ps a) = Inr (ps (Suc a), vs (Suc a))"
    using Suc.prems(1) by (metis add_0_right add_Suc_right zero_less_Suc)
  show ?case
  proof (cases "vs (Suc a) < vs a + 1")
    case True
    have "m = 0"
    proof (rule ccontr)
      assume "m \<noteq> 0"
      then have "Suc 0 < Suc m" by simp
      with Suc.prems(2) have "\<not> vs (a + Suc 0) - vs (a + 0) < 1" by blast
      with True show False by simp
    qed
    with True it up show ?thesis by (simp add: upt_conv_Cons)
  next
    case False
    have s1: "\<forall>i<m. nr_iteration E x y f (ps (Suc a + i)) = Inr (ps (Suc a + Suc i), vs (Suc a + Suc i))"
      using Suc.prems(1) by (metis Suc_less_eq add_Suc_right add_Suc_shift)
    have s2: "\<forall>i. Suc i < m \<longrightarrow> \<not> vs (Suc a + Suc i) - vs (Suc a + i) < 1"
      using Suc.prems(2) by (metis Suc_less_eq add_Suc_right add_Suc_shift)
    have s3: "m = N' \<or> (0 < m \<and> vs (Suc a + m) - vs (Suc a + m - 1) < 1)"
    proof (cases "m = 0")
      case True
      with Suc.prems(3) False N show ?thesis by auto
    next
      case False
      with Suc.prems(3) N show ?thesis by auto
    qed
    have s4: "m \<le> N'" using Suc.prems(4) N by simp
    have "nr_loop E vb x y f [Suc a..<Suc a + N'] (ps (Suc a)) (vs (Suc a))
            = (Inr (ps (Suc a + m)), if vb then map PInt [Suc a..<Suc a + m] else [])"
      by (rule Suc.IH [OF s1 s2 s3 s4])
    with False it up show ?thesis by (simp add: upt_conv_Cons)
  qed
qed

lemma float_power_zero_exponent: "float_power x 0 = 1"
  by (simp add: float_power_def)

lemma float_power_one_exponent: "0 \<le> x \<Longrightarrow> float_power x 1 = x"
  by (simp add: float_power_def)

lemma float_power_nonneg: "0 \<le> x \<Longrightarrow> 0 \<le> float_power x y"
  by (simp add: float_power_def)

lemmas np_eval = np_reshape_def np_size_def np_dot_def broadcast_shapes_def pad_shape_def
  broadcast_to_def np_power_def np_prod_axis1_def np_add_scalar_def np_log_def np_sum_def
  np_negative_def np_squeeze_def np_ones_rows_def np_eye_def np_take_rows_def
  np_index_array_def float_power_zero_exponent float_power_one_exponent Let_def upt_conv_Cons

subsection \<open>The examples, evaluated\<close>

lemma demo_objective_at_zero:
  "objective_function (demo_externals st) doc_x doc_y [2, 2] \<lparr>shape = [2, 2], data = [0, 0, 0, 0]\<rparr>
     = Inr (2 * ln (1 / 2 + 1 / 10 ^ 7))"
  by (simp add: fit_defs demo_defs np_eval)

lemma demo_iteration_away:
  "nr_iteration (demo_externals away_step) doc_x doc_y
     (objective_function (demo_externals away_step) doc_x doc_y [2, 2])
     \<lparr>shape = [2, 2], data = [0, 0, 0, 0]\<rparr>
   = Inr (\<lparr>shape = [2, 2], data = [1, 0, 0, 1]\<rparr>,
          2 * ln (exp (- 1) / (1 + exp (- 1)) + 1 / 10 ^ 7))"
  by (simp add: fit_defs demo_defs np_eval away_step_def add.commute)

lemma demo_regress:
  "2 * ln (exp (- 1) / (1 + exp (- 1)) + 1 / 10 ^ 7) < 2 * ln (1 / 2 + 1 / 10 ^ 7 :: real)"
proof -
  have h: "t / (1 + t) < 1 / 2" if "0 < t" "t < 1" for t :: real
    using that by (simp add: field_simps)
  have "exp (- 1) / (1 + exp (- 1)) < (1 / 2 :: real)"
    by (rule h) simp_all
  moreover have "(0::real) < exp (- 1) / (1 + exp (- 1))"
    by (simp add: add_pos_pos)
  moreover have mono: "ln (a + d) < ln (b + d)" if "0 < a" "a < b" "0 < d" for a b d :: real
    using that by (subst ln_less_cancel_iff) auto
  ultimately have "ln (exp (- 1) / (1 + exp (- 1)) + 1 / 10 ^ 7) < ln (1 / 2 + 1 / 10 ^ 7 :: real)"
    by (intro mono) simp_all
  then show ?thesis by simp
qed

subsection \<open>Stopping rule of the Newton-Raphson path\<close>

lemma softmax_spec_nonneg:
  assumes "softmax_spec z = Inr q" and "v \<in> set (data q)"
  shows "0 \<le> v"
proof -
  obtain n k where sh: "shape z = [n, k]"
    using assms(1) by (auto simp: softmax_spec_def split: list.splits)
  let ?row = "\<lambda>i. take k (drop (i * k) (data z))"
  let ?ex = "\<lambda>i. map (\<lambda>u. exp (u - Max (set (?row i)))) (?row i)"
  have "data q = concat (map (\<lambda>i. map (\<lambda>u. u / sum_list (?ex i)) (?ex i)) [0..<n])"
    using assms(1) sh by (auto simp: softmax_spec_def Let_def)
  with assms(2) obtain i u where "u \<in> set (?ex i)" and v: "v = u / sum_list (?ex i)"
    by auto
  then have "0 \<le> u" by auto
  moreover have "0 \<le> sum_list (?ex i)" by (rule sum_list_nonneg) auto
  ultimately show ?thesis using v by simp
qed

lemma demo_objective_at_identity:
  "objective_function (demo_externals st) doc_x doc_y [2, 2] \<lparr>shape = [2, 2], data = [1, 0, 0, 1]\<rparr>
     = Inr (2 * ln (exp (- 1) / (1 + exp (- 1)) + 1 / 10 ^ 7))"
  by (simp add: fit_defs demo_defs np_eval add.commute)

text \<open>
  C1. \<open>fit\<close> with method \<open>'Newton-Raphson'\<close>. Let \<open>ps 0\<close> be the stored parameters and let
  pass \<open>i\<close> of the loop (posterior, weights, gradient, Hessian, Newton step, lines
  115-119) take \<open>ps i\<close> to \<open>ps (i + 1)\<close>; let \<open>vs i\<close> be the value of the objective closure
  at \<open>ps i\<close>. If pass \<open>m\<close> is the first whose new parameters improve on the objective of
  the previous ones by less than 1, that is \<open>vs m - vs (m - 1) < 1\<close>, or \<open>m\<close> is the budget
  \<open>max_iter\<close> and no earlier pass improved by less than 1, then \<open>fit\<close> returns \<open>ps m\<close>, the
  latest iterate, and stores it (reshaped to the shape of the stored matrix). Nothing is
  assumed about \<open>vs m\<close> against the earlier values: the last iterate is returned also when
  its objective is lower. Targets and posteriors have no negative entries, so that the
  objective values are those of numpy's power and logarithm.
\<close>

theorem newton_raphson_stopping_rule:
  assumes "expand_labels (output_dim c) y = Inr yy"
    and "ps 0 = params c"
    and "\<forall>i\<le>m. objective_function E x yy (shape (params c)) (ps i) = Inr (vs i)"
    and "\<forall>i<m. \<exists>z post w grad hess.
            np_dot x (ps i) = Inr z \<and> softmax E z = Inr post \<and> np_ones_rows yy = Inr w
            \<and> gradient E x yy post w = Inr grad \<and> hessian E x yy post w = Inr hess
            \<and> newton_raphson E grad hess (ps i) (objective_function E x yy (shape (params c)))
                = Inr (ps (Suc i))"
    and "\<forall>i. Suc i < m \<longrightarrow> \<not> vs (Suc i) - vs i < 1"
    and "m = nat max_iter \<or> (0 < m \<and> vs m - vs (m - 1) < 1)"
    and "m \<le> nat max_iter"
    and "np_size (ps m) = np_size (params c)"
    and "\<forall>v\<in>set (data yy). 0 \<le> v"
    and "\<forall>z q. softmax E z = Inr q \<longrightarrow> (\<forall>v\<in>set (data q). 0 \<le> v)"
  shows "fit E c x y ''Newton-Raphson'' max_iter
           = (Inr (ps m), c\<lparr>params := (ps m)\<lparr>shape := shape (params c)\<rparr>\<rparr>,
              [PStr ''... Newton-Raphson:'']
                @ (if verbose c then map PInt [0..<m] @ [PStr ''The End.''] else []))"
proof -
  let ?f = "objective_function E x yy (shape (params c))"
  have pass: "nr_iteration E x yy ?f (ps i) = Inr (ps (Suc i), vs (Suc i))" if "i < m" for i
  proof -
    from assms(4) that obtain z post w grad hess where
      "np_dot x (ps i) = Inr z" "softmax E z = Inr post" "np_ones_rows yy = Inr w"
      "gradient E x yy post w = Inr grad" "hessian E x yy post w = Inr hess"
      "newton_raphson E grad hess (ps i) ?f = Inr (ps (Suc i))"
      by blast
    moreover have "?f (ps (Suc i)) = Inr (vs (Suc i))"
      using assms(3) that by (simp add: Suc_le_eq)
    ultimately show ?thesis by (simp add: nr_iteration_def)
  qed
  have start: "?f (params c) = Inr (vs 0)"
    using assms(2,3) by (metis le0)
  have "nr_loop E (verbose c) x yy ?f [0..<0 + nat max_iter] (ps 0) (vs 0)
          = (Inr (ps (0 + m)), if verbose c then map PInt [0..<0 + m] else [])"
    using pass assms(5-7) by (intro nr_loop_run) simp_all
  then have loop: "nr_loop E (verbose c) x yy ?f [0..<nat max_iter] (params c) (vs 0)
          = (Inr (ps m), if verbose c then map PInt [0..<m] else [])"
    by (simp add: assms(2))
  have rs: "np_reshape (ps m) (shape (params c)) = Inr ((ps m)\<lparr>shape := shape (params c)\<rparr>)"
    using assms(8) by (simp add: np_reshape_def np_size_def)
  show ?thesis
    by (simp add: fit_def assms(1) start fit_newton_raphson_def loop rs)
qed

text \<open>On the docstring data, from zero parameters, a step that moves to the identity
  matrix lowers the objective; the improvement is below 1, the loop stops after its
  first pass although 20 are allowed, and the lower-valued iterate is what \<open>fit\<close> returns
  and stores.\<close>

theorem newton_raphson_stopping_rule_witness:
  "objective_function (demo_externals away_step) doc_x doc_y [2, 2]
       \<lparr>shape = [2, 2], data = [0, 0, 0, 0]\<rparr> = Inr (2 * ln (1 / 2 + 1 / 10 ^ 7))
   \<and> objective_function (demo_externals away_step) doc_x doc_y [2, 2]
       \<lparr>shape = [2, 2], data = [1, 0, 0, 1]\<rparr> = Inr (2 * ln (exp (- 1) / (1 + exp (- 1)) + 1 / 10 ^ 7))
   \<and> 2 * ln (exp (- 1) / (1 + exp (- 1)) + 1 / 10 ^ 7) < 2 * ln (1 / 2 + 1 / 10 ^ 7 :: real)
   \<and> fit_default (demo_externals away_step) (zero_classifier True) doc_x (NdArray doc_y)
       = (Inr \<lparr>shape = [2, 2], data = [1, 0, 0, 1]\<rparr>,
          (zero_classifier True)\<lparr>params := \<lparr>shape = [2, 2], data = [1, 0, 0, 1]\<rparr>\<rparr>,
          [PStr ''... Newton-Raphson:'', PInt 0, PStr ''The End.''])"
proof -
  let ?c = "zero_classifier True"
  let ?E = "demo_externals away_step"
  let ?p0 = "\<lparr>shape = [2, 2], data = [0, 0, 0, 0]\<rparr>"
  let ?p1 = "\<lparr>shape = [2, 2], data = [1, 0, 0, 1]\<rparr>"
  let ?ps = "\<lambda>i::nat. if i = 0 then ?p0 else ?p1"
  let ?vs = "\<lambda>i::nat. if i = 0 then 2 * ln (1 / 2 + 1 / 10 ^ 7)
                       else 2 * ln (exp (- 1) / (1 + exp (- 1)) + 1 / 10 ^ 7) :: real"
  have pc: "params ?c = ?p0" and sh: "shape (params ?c) = [2, 2]"
    by (simp_all add: zero_classifier_def)
  have o0: "objective_function ?E doc_x doc_y [2, 2] ?p0 = Inr (2 * ln (1 / 2 + 1 / 10 ^ 7))"
    by (rule demo_objective_at_zero)
  have o1: "objective_function ?E doc_x doc_y [2, 2] ?p1
              = Inr (2 * ln (exp (- 1) / (1 + exp (- 1)) + 1 / 10 ^ 7))"
    by (rule demo_objective_at_identity)
  have h1: "expand_labels (output_dim ?c) (NdArray doc_y) = Inr doc_y"
    by (simp add: expand_labels_def)
  have h2: "?ps 0 = params ?c" by (simp add: pc)
  have h3: "\<forall>i\<le>1. objective_function ?E doc_x doc_y (shape (params ?c)) (?ps i) = Inr (?vs i)"
    using o0 o1 by (simp add: sh)
  have h4: "\<forall>i<1. \<exists>z post w grad hess.
            np_dot doc_x (?ps i) = Inr z \<and> softmax ?E z = Inr post \<and> np_ones_rows doc_y = Inr w
            \<and> gradient ?E doc_x doc_y post w = Inr grad \<and> hessian ?E doc_x doc_y post w = Inr hess
            \<and> newton_raphson ?E grad hess (?ps i) (objective_function ?E doc_x doc_y (shape (params ?c)))
                = Inr (?ps (Suc i))"
    by (simp add: demo_defs np_eval away_step_def)
  have h5: "\<forall>i. Suc i < 1 \<longrightarrow> \<not> ?vs (Suc i) - ?vs i < 1" by simp
  have h6: "1 = nat 20 \<or> (0 < (1::nat) \<and> ?vs 1 - ?vs (1 - 1) < 1)"
    using demo_regress by simp
  have h7: "1 \<le> nat 20" by simp
  have h8: "np_size (?ps 1) = np_size (params ?c)" by (simp add: pc np_size_def)
  have h9: "\<forall>v\<in>set (data doc_y). 0 \<le> v" by (simp add: doc_y_def)
  have h10: "\<forall>z q. softmax ?E z = Inr q \<longrightarrow> (\<forall>v\<in>set (data q). 0 \<le> v)"
    using softmax_spec_nonneg by (simp add: demo_externals_def)
  have "fit ?E ?c doc_x (NdArray doc_y) ''Newton-Raphson'' 20
           = (Inr (?ps 1), ?c\<lparr>params := (?ps 1)\<lparr>shape := shape (params ?c)\<rparr>\<rparr>,
              [PStr ''... Newton-Raphson:'']
                @ (if verbose ?c then map PInt [0..<1] @ [PStr ''The End.''] else []))"
    by (rule newton_raphson_stopping_rule
          [where c = ?c and y = "NdArray doc_y" and yy = doc_y and E = ?E and x = doc_x
             and vs = ?vs and ps = ?ps and m = 1 and max_iter = 20,
           OF h1 h2 h3 h4 h5 h6 h7 h8 h9 h10])
  then have "fit_default ?E ?c doc_x (NdArray doc_y)
       = (Inr ?p1, ?c\<lparr>params := ?p1\<rparr>, [PStr ''... Newton-Raphson:'', PInt 0, PStr ''The End.''])"
    by (simp add: zero_classifier_def fit_default_def)
  with o0 o1 demo_regress show ?thesis by blast
qed

subsection \<open>Progress text\<close>

text \<open>With \<open>verbose\<close> false the loop prints nothing, but line 110 has already printed the
  header: it is not under the test of \<open>self.verbose\<close> that guards the other two print
  statements.\<close>

lemma quiet_fit_prints_header:
  assumes "verbose c = False"
    and "expand_labels (output_dim c) y = Inr yy"
    and "objective_function E x yy (shape (params c)) (params c) = Inr v"
  shows "snd (snd (fit E c x y ''Newton-Raphson'' max_iter)) = [PStr ''... Newton-Raphson:'']"
proof -
  let ?f = "objective_function E x yy (shape (params c))"
  obtain r out where lp: "nr_loop E False x yy ?f [0..<nat max_iter] (params c) v = (r, out)"
    by (cases "nr_loop E False x yy ?f [0..<nat max_iter] (params c) v")
  have "out = []"
    using nr_loop_quiet [of E x yy ?f "[0..<nat max_iter]" "params c" v] lp by simp
  then show ?thesis
    using lp by (simp add: fit_def assms fit_newton_raphson_def Let_def split: sum.splits)
qed

text \<open>The flag changes nothing else: the returned value and the stored parameters are
  the same for both values of \<open>verbose\<close>.\<close>

lemma fit_verbose_observational:
  "fst (fit E (c\<lparr>verbose := vb\<rparr>) x y method max_iter) = fst (fit E c x y method max_iter)
   \<and> params (fst (snd (fit E (c\<lparr>verbose := vb\<rparr>) x y method max_iter)))
       = params (fst (snd (fit E c x y method max_iter)))"
proof -
  have nr: "fst (fit_newton_raphson E (c\<lparr>verbose := vb\<rparr>) x yy n v) = fst (fit_newton_raphson E c x yy n v)
     \<and> params (fst (snd (fit_newton_raphson E (c\<lparr>verbose := vb\<rparr>) x yy n v)))
       = params (fst (snd (fit_newton_raphson E c x yy n v)))" for yy n v
    using nr_loop_result_verbose [of E vb x yy "objective_function E x yy (shape (params c))"
            "[0..<nat n]" "params c" v "verbose c"]
    by (auto simp: fit_newton_raphson_def Let_def split_beta split: sum.splits)
  have mn: "fst (fit_minimize E (c\<lparr>verbose := vb\<rparr>) x yy m) = fst (fit_minimize E c x yy m)
     \<and> params (fst (snd (fit_minimize E (c\<lparr>verbose := vb\<rparr>) x yy m)))
       = params (fst (snd (fit_minimize E c x yy m)))" for yy m
    by (auto simp: fit_minimize_def Let_def split: sum.splits prod.splits)
  show ?thesis
    by (simp add: fit_def nr mn split: sum.splits)
qed

text \<open>
  C2. The design document asks that a \<open>fit\<close> call with \<open>verbose\<close> false and method
  \<open>'Newton-Raphson'\<close> emit no progress text at all, not even the header. On the
  docstring data, with \<open>verbose\<close> false and the default budget of 20 passes, the call
  prints the header \<open>... Newton-Raphson:\<close>.
\<close>

theorem quiet_fit_header_on_docstring_data:
  "verbose (zero_classifier False) = False
   \<and> snd (snd (fit (demo_externals away_step) (zero_classifier False) doc_x (NdArray doc_y)
                  ''Newton-Raphson'' 20))
       = [PStr ''... Newton-Raphson:'']"
proof -
  let ?c = "zero_classifier False"
  have pc: "params ?c = \<lparr>shape = [2, 2], data = [0, 0, 0, 0]\<rparr>"
    by (simp add: zero_classifier_def)
  have h1: "verbose ?c = False" by (simp add: zero_classifier_def)
  have h2: "expand_labels (output_dim ?c) (NdArray doc_y) = Inr doc_y"
    by (simp add: expand_labels_def)
  have h3: "objective_function (demo_externals away_step) doc_x doc_y (shape (params ?c)) (params ?c)
              = Inr (2 * ln (1 / 2 + 1 / 10 ^ 7))"
    using demo_objective_at_zero [of away_step] by (simp add: pc)
  show ?thesis
    using h1 quiet_fit_prints_header [OF h1 h2 h3, of 20] by simp
qed

subsection \<open>A budget of zero passes\<close>

text \<open>
  C3. For a sample matrix \<open>x\<close> of shape \<open>n \<times> input_dim\<close>, a stored parameter matrix of
  shape \<open>input_dim \<times> output_dim\<close>, labels that are (after the expansion of a list) an
  \<open>n \<times> output_dim\<close> matrix, and a softmax that maps an \<open>n \<times> output_dim\<close> matrix to one of
  the same shape: \<open>fit\<close> with method \<open>'Newton-Raphson'\<close> and \<open>max_iter = 0\<close> returns the
  stored parameter matrix, and the classifier after the call equals the classifier
  before it.
\<close>

theorem fit_zero_iterations:
  assumes "expand_labels (output_dim c) y = Inr yy"
    and "shape x = [n, input_dim c]"
    and "shape (params c) = [input_dim c, output_dim c]"
    and "shape yy = [n, output_dim c]"
    and "\<forall>z. shape z = [n, output_dim c] \<longrightarrow> (\<exists>q. softmax E z = Inr q \<and> shape q = [n, output_dim c])"
  shows "fst (fit E c x y ''Newton-Raphson'' 0) = Inr (params c)
         \<and> fst (snd (fit E c x y ''Newton-Raphson'' 0)) = c"
proof -
  obtain v where v: "objective_function E x yy (shape (params c)) (params c) = Inr v"
    using objective_function_defined [OF assms(2) _ assms(3) assms(4) assms(5), of "params c"]
    by (auto simp: np_size_def)
  show ?thesis
    by (simp add: fit_def assms(1) v fit_newton_raphson_def np_reshape_same)
qed

theorem fit_zero_iterations_witness:
  "fst (fit (demo_externals away_step) (zero_classifier True) doc_x (NdArray doc_y) ''Newton-Raphson'' 0)
     = Inr \<lparr>shape = [2, 2], data = [0, 0, 0, 0]\<rparr>
   \<and> fst (snd (fit (demo_externals away_step) (zero_classifier True) doc_x (NdArray doc_y)
                  ''Newton-Raphson'' 0))
       = zero_classifier True"
proof -
  let ?c = "zero_classifier True"
  have h1: "expand_labels (output_dim ?c) (NdArray doc_y) = Inr doc_y"
    by (simp add: expand_labels_def)
  have h2: "shape doc_x = [2, input_dim ?c]" by (simp add: doc_x_def zero_classifier_def)
  have h3: "shape (params ?c) = [input_dim ?c, output_dim ?c]" by (simp add: zero_classifier_def)
  have h4: "shape doc_y = [2, output_dim ?c]" by (simp add: doc_y_def zero_classifier_def)
  have h5: "\<forall>z. shape z = [2, output_dim ?c] \<longrightarrow>
              (\<exists>q. softmax (demo_externals away_step) z = Inr q \<and> shape q = [2, output_dim ?c])"
    by (simp add: demo_externals_def softmax_spec_def zero_classifier_def)
  show ?thesis
    using fit_zero_iterations [OF h1 h2 h3 h4 h5] by (simp add: zero_classifier_def)
qed

subsection \<open>The stored parameters when \<open>fit\<close> raises\<close>

lemma fit_newton_raphson_error:
  "fst (fit_newton_raphson E c x yy n v) = Inl e \<Longrightarrow> fst (snd (fit_newton_raphson E c x yy n v)) = c"
  by (auto simp: fit_newton_raphson_def Let_def split: prod.splits sum.splits)

text \<open>
  C4. \<open>self.params\<close> is assigned once, after the loop (line 126). When a \<open>fit\<close> call with
  method \<open>'Newton-Raphson'\<close> ends in an exception, raised in any pass of the loop or
  elsewhere, the classifier is the one the call started with.
\<close>

theorem fit_raise_keeps_params:
  "fst (fit E c x y ''Newton-Raphson'' max_iter) = Inl e \<Longrightarrow>
   fst (snd (fit E c x y ''Newton-Raphson'' max_iter)) = c"
  by (auto simp: fit_def fit_newton_raphson_error split: sum.splits)

text \<open>A Newton step that raises in the first pass.\<close>

theorem fit_raise_keeps_params_witness:
  "fst (fit (demo_externals failing_step) (zero_classifier True) doc_x (NdArray doc_y)
          ''Newton-Raphson'' 20) = Inl (ExternalError ''singular matrix'')
   \<and> fst (snd (fit (demo_externals failing_step) (zero_classifier True) doc_x (NdArray doc_y)
                  ''Newton-Raphson'' 20)) = zero_classifier True"
proof -
  have h: "fst (fit (demo_externals failing_step) (zero_classifier True) doc_x (NdArray doc_y)
          ''Newton-Raphson'' 20) = Inl (ExternalError ''singular matrix'')"
    by (simp add: fit_defs demo_defs np_eval failing_step_def)
  show ?thesis
    using h fit_raise_keeps_params [OF h] by simp
qed

subsection \<open>The log-likelihood\<close>

lemma concat_chunks:
  "concat (map (\<lambda>i. take c (drop (i * c) xs)) [0..<n]) = take (n * c) xs"
proof (induction n)
  case 0
  then show ?case by simp
next
  case (Suc n)
  have "take (n * c + c) xs = take (n * c) xs @ take c (drop (n * c) xs)"
    by (rule take_add)
  moreover have "Suc n * c = n * c + c" by simp
  ultimately have "take (Suc n * c) xs = take (n * c) xs @ take c (drop (n * c) xs)"
    by metis
  moreover have "concat (map (\<lambda>i. take c (drop (i * c) xs)) [0..<Suc n])
                   = concat (map (\<lambda>i. take c (drop (i * c) xs)) [0..<n]) @ take c (drop (n * c) xs)"
    by simp
  ultimately show ?case using Suc by metis
qed

text \<open>Broadcasting an array to its own shape leaves the entries as they are.\<close>

lemma bcast_same: "length xs = prod_list s \<Longrightarrow> bcast s s xs = xs"
proof (induction s arbitrary: xs)
  case Nil
  then show ?case by simp
next
  case (Cons t ts)
  let ?c = "prod_list ts"
  have len: "length xs = t * ?c" using Cons.prems by simp
  have blk: "bcast ts ts (take ?c (drop (i * ?c) xs)) = take ?c (drop (i * ?c) xs)"
    if "i < t" for i
  proof (rule Cons.IH)
    have "Suc i * ?c \<le> t * ?c" using that by (intro mult_le_mono1) simp
    then have "i * ?c + ?c \<le> length xs" using len by simp
    then show "length (take ?c (drop (i * ?c) xs)) = ?c" by simp
  qed
  have "bcast (t # ts) (t # ts) xs
          = concat (map (\<lambda>i. bcast ts ts (take ?c (drop (i * ?c) xs))) [0..<t])"
    by simp
  also have "\<dots> = concat (map (\<lambda>i. take ?c (drop (i * ?c) xs)) [0..<t])"
    using blk by (intro arg_cong [where f = concat] map_cong) auto
  also have "\<dots> = take (t * ?c) xs" by (rule concat_chunks)
  also have "\<dots> = xs" using len by simp
  finally show ?case .
qed

lemma broadcast_to_same: "wf_ndarray a \<Longrightarrow> broadcast_to (shape a) a = data a"
  by (simp add: broadcast_to_def pad_shape_def bcast_same wf_ndarray_def)

lemma np_power_same_shape_data:
  assumes "shape a = s" and "shape b = s" and "wf_ndarray a" and "wf_ndarray b"
  shows "np_power a b = Inr \<lparr>shape = s, data = map (\<lambda>(u, v). float_power u v) (zip (data a) (data b))\<rparr>"
  using assms broadcast_to_same [of a] broadcast_to_same [of b]
  by (simp add: np_power_def broadcast_shapes_same)

lemma matrix_index_bound: "i < n \<Longrightarrow> j < k \<Longrightarrow> i * k + j < n * (k::nat)"
proof -
  assume "i < n" "j < k"
  then have "i * k + j < Suc i * k" by simp
  also have "\<dots> \<le> n * k" using \<open>i < n\<close> by (intro mult_le_mono1) simp
  finally show ?thesis .
qed

text \<open>Lines 58-59 (and 103-104) on an \<open>n \<times> k\<close> posterior and an \<open>n \<times> k\<close> target.\<close>

lemma likelihood_pipeline:
  assumes "shape post = [n, k]" and "shape y = [n, k]" and "wf_ndarray post" and "wf_ndarray y"
  shows "bind_result (np_power post y) (\<lambda>pw.
         bind_result (np_prod_axis1 pw) (\<lambda>lik.
           Inr (np_sum (np_log (np_add_scalar lik (1 / 10 ^ 7))))))
         = Inr (log_likelihood_spec post y n k)"
proof -
  let ?D = "map (\<lambda>(u, v). float_power u v) (zip (data post) (data y))"
  have lp: "length (data post) = n * k" and ly: "length (data y) = n * k"
    using assms by (simp_all add: wf_ndarray_def)
  have pw: "np_power post y = Inr \<lparr>shape = [n, k], data = ?D\<rparr>"
    using assms by (rule np_power_same_shape_data)
  have el: "?D ! (i * k + j) = float_power (data post ! (i * k + j)) (data y ! (i * k + j))"
    if "i < n" "j < k" for i j
    using matrix_index_bound [OF that] lp ly by simp
  have row: "prod_list (map (\<lambda>j. ?D ! (i * k + j)) [0..<k])
               = (\<Prod>j<k. float_power (data post ! (i * k + j)) (data y ! (i * k + j)))"
    if "i < n" for i
  proof -
    have "prod_list (map (\<lambda>j. ?D ! (i * k + j)) [0..<k])
            = prod_list (map (\<lambda>j. float_power (data post ! (i * k + j)) (data y ! (i * k + j))) [0..<k])"
      using el [OF that] by (intro arg_cong [where f = prod_list] map_cong) auto
    also have "\<dots> = (\<Prod>j\<in>set [0..<k]. float_power (data post ! (i * k + j)) (data y ! (i * k + j)))"
      by (rule prod.distinct_set_conv_list [symmetric]) simp
    finally show ?thesis by (simp add: lessThan_atLeast0)
  qed
  have pr: "np_prod_axis1 \<lparr>shape = [n, k], data = ?D\<rparr>
              = Inr \<lparr>shape = [n], data = map (\<lambda>i. prod_list (map (\<lambda>j. ?D ! (i * k + j)) [0..<k])) [0..<n]\<rparr>"
    by (simp add: np_prod_axis1_def)
  have "np_sum (np_log (np_add_scalar
          \<lparr>shape = [n], data = map (\<lambda>i. prod_list (map (\<lambda>j. ?D ! (i * k + j)) [0..<k])) [0..<n]\<rparr> (1 / 10 ^ 7)))
        = sum_list (map (\<lambda>i. ln (prod_list (map (\<lambda>j. ?D ! (i * k + j)) [0..<k]) + 1 / 10 ^ 7)) [0..<n])"
    by (simp add: np_sum_def np_log_def np_add_scalar_def comp_def)
  also have "\<dots> = sum_list (map (\<lambda>i. ln ((\<Prod>j<k. float_power (data post ! (i * k + j)) (data y ! (i * k + j))) + 1 / 10 ^ 7)) [0..<n])"
    using row by (intro arg_cong [where f = sum_list] map_cong) auto
  also have "\<dots> = log_likelihood_spec post y n k"
    unfolding log_likelihood_spec_def
    by (simp add: interv_sum_list_conv_sum_set_nat lessThan_atLeast0)
  finally show ?thesis by (simp add: pw pr)
qed

text \<open>
  C5. Let \<open>post\<close> be the posterior \<open>softmax (x \<cdot> params)\<close>, an \<open>n \<times> k\<close> matrix, and \<open>y\<close> an
  \<open>n \<times> k\<close> target matrix. Then \<open>log_likelihood\<close> returns the sum over the samples \<open>i\<close> of
  \<open>log (prod_c post[i,c] ^ y[i,c] + 1e-7)\<close>, and so does the objective closure of \<open>fit\<close> at
  the stored parameters. The constant is added before the logarithm is taken: when the
  entries of \<open>post\<close> and \<open>y\<close> are non-negative, every argument of the logarithm is at
  least \<open>1e-7\<close>, also where a posterior entry of an observed class is 0. (Entries are
  real numbers; rounding is not modelled.)
\<close>

theorem log_likelihood_formula:
  assumes "np_dot x (params c) = Inr z" and "softmax E z = Inr post"
    and "shape post = [n, k]" and "shape y = [n, k]"
    and "wf_ndarray post" and "wf_ndarray y"
  shows "log_likelihood E c x y = Inr (log_likelihood_spec post y n k)
         \<and> objective_function E x y (shape (params c)) (params c) = Inr (log_likelihood_spec post y n k)
         \<and> ((\<forall>v\<in>set (data post). 0 \<le> v) \<and> (\<forall>v\<in>set (data y). 0 \<le> v) \<longrightarrow>
              (\<forall>i<n. 1 / 10 ^ 7 \<le> (\<Prod>j<k. float_power (data post ! (i * k + j)) (data y ! (i * k + j))) + 1 / 10 ^ 7))"
proof -
  note pl = likelihood_pipeline [OF assms(3-6)]
  have a: "log_likelihood E c x y = Inr (log_likelihood_spec post y n k)"
    by (simp only: log_likelihood_def py_given_x_def assms(1,2) bind_result.simps pl)
  have b: "objective_function E x y (shape (params c)) (params c) = Inr (log_likelihood_spec post y n k)"
    by (simp only: objective_function_def np_reshape_same assms(1,2) bind_result.simps pl)
  have c: "1 / 10 ^ 7 \<le> (\<Prod>j<k. float_power (data post ! (i * k + j)) (data y ! (i * k + j))) + 1 / 10 ^ 7"
    if nn: "\<forall>v\<in>set (data post). 0 \<le> v" and "i < n" for i
  proof -
    have "0 \<le> (\<Prod>j<k. float_power (data post ! (i * k + j)) (data y ! (i * k + j)))"
    proof (rule prod_nonneg)
      fix j assume "j \<in> {..<k}"
      then have "i * k + j < length (data post)"
        using matrix_index_bound [of i n j k] that(2) assms(3,5) by (simp add: wf_ndarray_def)
      then have "0 \<le> data post ! (i * k + j)" using nn by simp
      then show "0 \<le> float_power (data post ! (i * k + j)) (data y ! (i * k + j))"
        by (rule float_power_nonneg)
    qed
    then show ?thesis by simp
  qed
  show ?thesis using a b c by blast
qed

text \<open>The docstring data at zero parameters: every posterior entry is 1/2.\<close>

theorem log_likelihood_formula_witness:
  "log_likelihood (demo_externals away_step) (zero_classifier True) doc_x doc_y
     = Inr (log_likelihood_spec \<lparr>shape = [2, 2], data = [1 / 2, 1 / 2, 1 / 2, 1 / 2]\<rparr> doc_y 2 2)
   \<and> log_likelihood_spec \<lparr>shape = [2, 2], data = [1 / 2, 1 / 2, 1 / 2, 1 / 2]\<rparr> doc_y 2 2
       = 2 * ln (1 / 2 + 1 / 10 ^ 7)"
proof -
  let ?c = "zero_classifier True"
  let ?z = "\<lparr>shape = [2, 2], data = [0, 0, 0, 0]\<rparr>"
  let ?post = "\<lparr>shape = [2, 2], data = [1 / 2, 1 / 2, 1 / 2, 1 / 2]\<rparr>"
  have h1: "np_dot doc_x (params ?c) = Inr ?z"
    by (simp add: doc_x_def zero_classifier_def np_eval)
  have h2: "softmax (demo_externals away_step) ?z = Inr ?post"
    by (simp add: demo_externals_def softmax_spec_def np_eval)
  have h3: "shape ?post = [2, 2]" by simp
  have h4: "shape doc_y = [2, 2]" by (simp add: doc_y_def)
  have h5: "wf_ndarray ?post" by (simp add: wf_ndarray_def)
  have h6: "wf_ndarray doc_y" by (simp add: wf_ndarray_def doc_y_def)
  have v: "log_likelihood_spec ?post doc_y 2 2 = 2 * ln (1 / 2 + 1 / 10 ^ 7)"
    by (simp add: log_likelihood_spec_def doc_y_def lessThan_Suc eval_nat_numeral
          float_power_zero_exponent float_power_one_exponent)
  show ?thesis
    using log_likelihood_formula [OF h1 h2 h3 h4 h5 h6] v by simp
qed

text \<open>A posterior entry 0 at the observed class: the summand is \<open>log 1e-7\<close>.\<close>

lemma log_likelihood_spec_zero_probability:
  "log_likelihood_spec \<lparr>shape = [1, 2], data = [0, 1]\<rparr> \<lparr>shape = [1, 2], data = [1, 0]\<rparr> 1 2
     = ln (1 / 10 ^ 7)"
  by (simp add: log_likelihood_spec_def lessThan_Suc eval_nat_numeral
        float_power_zero_exponent float_power_one_exponent)

subsection \<open>Labels given as a list or as an array\<close>

lemma expand_labels_01: "expand_labels 2 (PyList [0, 1]) = Inr \<lparr>shape = [2, 2], data = [1, 0, 0, 1]\<rparr>"
  by (simp add: expand_labels_def np_take_rows_def np_index_array_def np_eye_def upt_conv_Cons)

text \<open>Row \<open>i\<close> of a list of rows of equal length, read off the concatenation.\<close>

lemma concat_rows_nth:
  "\<forall>r\<in>set rows. length r = k \<Longrightarrow> i < length rows \<Longrightarrow>
   take k (drop (i * k) (concat rows)) = rows ! i"
proof (induction rows arbitrary: i)
  case Nil
  then show ?case by simp
next
  case (Cons r rs)
  show ?case
  proof (cases i)
    case 0
    with Cons.prems show ?thesis by simp
  next
    case (Suc j)
    with Cons.prems have "take k (drop (j * k) (concat rs)) = rs ! j"
      by (intro Cons.IH) auto
    with Suc Cons.prems show ?thesis by simp
  qed
qed

lemma np_eye_row:
  assumes "i < k"
  shows "take k (drop (i * k) (data (np_eye k))) = map (\<lambda>j. if i = j then 1 else 0) [0..<k]"
proof -
  let ?rows = "map (\<lambda>i. map (\<lambda>j. if i = j then (1::real) else 0) [0..<k]) [0..<k]"
  have "take k (drop (i * k) (concat ?rows)) = ?rows ! i"
    using assms by (intro concat_rows_nth) auto
  with assms show ?thesis by (simp add: np_eye_def)
qed

text \<open>Line 99 on a list of labels that are valid indices of the classes: the rows of the
  identity matrix that are looked up are the one-hot rows of the labels.\<close>

lemma np_take_rows_eye:
  assumes "\<forall>l\<in>set ls. - int k \<le> l \<and> l < int k" and "int k \<le> 2 ^ 63"
  shows "np_take_rows (np_eye k) ls = Inr (one_hot_rows k ls)"
proof -
  have idx: "np_index_array ls = Inr ls"
    using assms by (force simp: np_index_array_def list_all_iff)
  have row: "take k (drop (nat (l mod int k) * k) (data (np_eye k)))
               = map (\<lambda>j. if int j = l mod int k then 1 else 0) [0..<k]"
    if "l \<in> set ls" for l
  proof -
    from that assms(1) have k: "0 < k" by force
    then have m: "0 \<le> l mod int k" "l mod int k < int k" by simp_all
    then have "nat (l mod int k) < k" by linarith
    then have "take k (drop (nat (l mod int k) * k) (data (np_eye k)))
                 = map (\<lambda>j. if nat (l mod int k) = j then 1 else 0) [0..<k]"
      by (rule np_eye_row)
    also have "\<dots> = map (\<lambda>j. if int j = l mod int k then 1 else 0) [0..<k]"
      using m by (intro map_cong) auto
    finally show ?thesis .
  qed
  have "concat (map (\<lambda>l. take k (drop (nat (l mod int k) * k) (data (np_eye k)))) ls)
          = concat (map (\<lambda>l. map (\<lambda>j. if int j = l mod int k then 1 else 0) [0..<k]) ls)"
    using row by (intro arg_cong [where f = concat] map_cong) auto
  moreover have "list_all (\<lambda>l. - int k \<le> l \<and> l < int k) ls"
    using assms(1) by (simp add: list_all_iff)
  moreover have "shape (np_eye k) = [k, k]" by (simp add: np_eye_def)
  ultimately show ?thesis
    by (simp add: np_take_rows_def idx one_hot_rows_def)
qed

text \<open>
  C6. A list of integer labels, each a valid index of the classes (\<open>0 \<le> l < output_dim\<close>,
  or negative and counted from the last class as Python indices are), is replaced by
  its one-hot rows, the rows of the identity matrix at the labels, before anything
  else happens: \<open>fit\<close> on the list gives the same result, the same classifier and the
  same output as \<open>fit\<close> on the array of the one-hot rows, for every method, budget and
  collaborators. For \<open>output_dim = 2\<close> and the list \<open>[0, 1]\<close> the array is
  \<open>[[1, 0], [0, 1]]\<close>. (An array has fewer than \<open>2^63\<close> rows.)
\<close>

theorem fit_label_list_one_hot:
  assumes "\<forall>l\<in>set ls. - int (output_dim c) \<le> l \<and> l < int (output_dim c)"
    and "int (output_dim c) \<le> 2 ^ 63"
  shows "expand_labels (output_dim c) (PyList ls) = Inr (one_hot_rows (output_dim c) ls)
         \<and> fit E c x (PyList ls) method max_iter
             = fit E c x (NdArray (one_hot_rows (output_dim c) ls)) method max_iter"
proof -
  have "expand_labels (output_dim c) (PyList ls) = Inr (one_hot_rows (output_dim c) ls)"
    using np_take_rows_eye [OF assms] by (simp add: expand_labels_def)
  moreover have "expand_labels (output_dim c) (NdArray (one_hot_rows (output_dim c) ls))
                   = Inr (one_hot_rows (output_dim c) ls)"
    by (simp add: expand_labels_def)
  ultimately show ?thesis by (simp add: fit_def)
qed

text \<open>The lists \<open>[0, 1]\<close> and \<open>[1, 0]\<close> with two classes: the second one expands to the
  target matrix of the docstring.\<close>

theorem fit_label_list_one_hot_witness:
  "one_hot_rows 2 [0, 1] = \<lparr>shape = [2, 2], data = [1, 0, 0, 1]\<rparr>
   \<and> one_hot_rows 2 [1, 0] = doc_y
   \<and> fit (demo_externals away_step) (zero_classifier True) doc_x (PyList [0, 1]) ''Newton-Raphson'' 20
       = fit (demo_externals away_step) (zero_classifier True) doc_x
           (NdArray \<lparr>shape = [2, 2], data = [1, 0, 0, 1]\<rparr>) ''Newton-Raphson'' 20
   \<and> fit (demo_externals away_step) (zero_classifier True) doc_x (PyList [1, 0]) ''Newton-Raphson'' 20
       = fit (demo_externals away_step) (zero_classifier True) doc_x (NdArray doc_y) ''Newton-Raphson'' 20"
proof -
  let ?c = "zero_classifier True"
  have k: "output_dim ?c = 2" by (simp add: zero_classifier_def)
  have a: "one_hot_rows 2 [0, 1] = \<lparr>shape = [2, 2], data = [1, 0, 0, 1]\<rparr>"
    by (simp add: one_hot_rows_def upt_conv_Cons)
  have b: "one_hot_rows 2 [1, 0] = doc_y"
    by (simp add: one_hot_rows_def doc_y_def upt_conv_Cons)
  have h01: "\<forall>l\<in>set [0, 1]. - int (output_dim ?c) \<le> l \<and> l < int (output_dim ?c)"
    by (simp add: k)
  have h10: "\<forall>l\<in>set [1, 0]. - int (output_dim ?c) \<le> l \<and> l < int (output_dim ?c)"
    by (simp add: k)
  have hk: "int (output_dim ?c) \<le> 2 ^ 63" by (simp add: k)
  show ?thesis
    using fit_label_list_one_hot [OF h01 hk, of "demo_externals away_step" doc_x "''Newton-Raphson''" 20]
          fit_label_list_one_hot [OF h10 hk, of "demo_externals away_step" doc_x "''Newton-Raphson''" 20]
          a b
    by (simp add: k)
qed

lemma nr_iteration_cong_externals:
  assumes "softmax E' = softmax E" and "newton_raphson E' = newton_raphson E"
    and "\<forall>post w. gradient E' x a post w = gradient E x a post w"
    and "\<forall>post w. hessian E' x a post w = hessian E x a post w"
  shows "nr_iteration E' x a f p = nr_iteration E x a f p"
  by (simp add: nr_iteration_def assms)

text \<open>
  C10. The expansion of line 99 happens for a Python list only. An array \<open>a\<close> of labels
  is left as it is, and it is \<open>a\<close> itself that the objective, the gradient and the
  Hessian routines receive: \<open>fit\<close> gives the same result with any other collaborators
  that agree with the given ones on the softmax, the Newton step, the solver, and on
  the gradient and Hessian routines called with the samples \<open>x\<close> and the target \<open>a\<close>.
\<close>

theorem array_labels_passed_unchanged:
  assumes "softmax E' = softmax E"
    and "newton_raphson E' = newton_raphson E"
    and "minimize E' = minimize E"
    and "\<forall>post w. gradient E' x a post w = gradient E x a post w"
    and "\<forall>post w. hessian E' x a post w = hessian E x a post w"
  shows "expand_labels k (NdArray a) = Inr a
         \<and> fit E' c x (NdArray a) method max_iter = fit E c x (NdArray a) method max_iter"
proof -
  have ob: "objective_function E' x a shp = objective_function E x a shp" for shp
    by (rule ext) (simp add: objective_function_def assms(1))
  have lp: "nr_loop E' vb x a f is p v = nr_loop E vb x a f is p v" for vb f "is" p v
    by (rule nr_loop_cong_externals) (rule nr_iteration_cong_externals [OF assms(1,2,4,5)])
  have nr: "fit_newton_raphson E' c x a n v = fit_newton_raphson E c x a n v" for n v
    by (simp add: fit_newton_raphson_def ob lp Let_def)
  have cb: "obj E' x a shp = obj E x a shp" "grd E' x a shp = grd E x a shp"
    "hsn E' x a shp = hsn E x a shp" for shp
    by (rule ext, simp add: obj_def grd_def hsn_def ob assms)+
  have mn: "fit_minimize E' c x a m = fit_minimize E c x a m" for m
    unfolding fit_minimize_def cb assms(3) by simp
  show ?thesis
    by (simp add: expand_labels_def fit_def ob nr mn split: sum.splits)
qed

text \<open>The label array \<open>[0, 1]\<close>, and gradient and Hessian routines that raise on every
  other target, in particular on the one-hot matrix that the list \<open>[0, 1]\<close> expands to.\<close>

theorem array_labels_passed_unchanged_witness:
  "expand_labels 2 (NdArray \<lparr>shape = [2], data = [0, 1]\<rparr>) = Inr \<lparr>shape = [2], data = [0, 1]\<rparr>
   \<and> expand_labels 2 (PyList [0, 1]) \<noteq> Inr \<lparr>shape = [2], data = [0, 1]\<rparr>
   \<and> fit ((demo_externals away_step)
            \<lparr>gradient := (\<lambda>x y post w. if y = \<lparr>shape = [2], data = [0, 1]\<rparr> then Inr post else Inl ValueError),
             hessian := (\<lambda>x y post w. if y = \<lparr>shape = [2], data = [0, 1]\<rparr> then Inr post else Inl ValueError)\<rparr>)
         (zero_classifier True) doc_x (NdArray \<lparr>shape = [2], data = [0, 1]\<rparr>) ''Newton-Raphson'' 20
       = fit (demo_externals away_step) (zero_classifier True) doc_x
           (NdArray \<lparr>shape = [2], data = [0, 1]\<rparr>) ''Newton-Raphson'' 20"
proof -
  let ?a = "\<lparr>shape = [2], data = [0, 1]\<rparr>"
  let ?E = "demo_externals away_step"
  let ?E' = "?E\<lparr>gradient := (\<lambda>x y post w. if y = ?a then Inr post else Inl ValueError),
                 hessian := (\<lambda>x y post w. if y = ?a then Inr post else Inl ValueError)\<rparr>"
  have h1: "softmax ?E' = softmax ?E" by simp
  have h2: "newton_raphson ?E' = newton_raphson ?E" by simp
  have h3: "minimize ?E' = minimize ?E" by simp
  have h4: "\<forall>post w. gradient ?E' doc_x ?a post w = gradient ?E doc_x ?a post w"
    by (simp add: demo_externals_def)
  have h5: "\<forall>post w. hessian ?E' doc_x ?a post w = hessian ?E doc_x ?a post w"
    by (simp add: demo_externals_def)
  have ne: "expand_labels 2 (PyList [0, 1]) \<noteq> Inr ?a"
    by (simp add: expand_labels_01)
  show ?thesis
    using array_labels_passed_unchanged [OF h1 h2 h3 h4 h5, of 2 "zero_classifier True" "''Newton-Raphson''" 20] ne
    by simp
qed

text \<open>The difference shows in the objective: the label array \<open>[1, 1]\<close> is broadcast as
  one row of exponents against every row of the posterior, while the label list
  \<open>[1, 1]\<close> selects the second class in both samples.\<close>

lemma label_array_objective:
  "objective_function (demo_externals st) doc_x \<lparr>shape = [2], data = [1, 1]\<rparr> [2, 2]
     \<lparr>shape = [2, 2], data = [0, 0, 0, 0]\<rparr> = Inr (2 * ln (1 / 4 + 1 / 10 ^ 7))
   \<and> expand_labels 2 (PyList [1, 1]) = Inr \<lparr>shape = [2, 2], data = [0, 1, 0, 1]\<rparr>
   \<and> objective_function (demo_externals st) doc_x \<lparr>shape = [2, 2], data = [0, 1, 0, 1]\<rparr> [2, 2]
     \<lparr>shape = [2, 2], data = [0, 0, 0, 0]\<rparr> = Inr (2 * ln (1 / 2 + 1 / 10 ^ 7))"
  by (simp add: fit_defs demo_defs np_eval eval_nat_numeral)

subsection \<open>Shapes that do not fit\<close>

text \<open>
  C7, as the design document states it: whenever the sample counts of \<open>x\<close> and \<open>y\<close> are
  incompatible, \<open>fit\<close> raises a shape error before any matrix operation. The module has
  no check of its own. Two samples in \<open>x\<close> and a single row in \<open>y\<close>: the row is broadcast
  against the posterior, the objective is computed, and \<open>fit\<close> returns normally.
\<close>

theorem fit_accepts_mismatched_sample_counts:
  "fit (demo_externals away_step)
       \<lparr>input_dim = 1, output_dim = 1, verbose = False, params = \<lparr>shape = [1, 1], data = [0]\<rparr>\<rparr>
       \<lparr>shape = [2, 1], data = [1, 1]\<rparr> (NdArray \<lparr>shape = [1, 1], data = [1]\<rparr>) ''Newton-Raphson'' 0
     = (Inr \<lparr>shape = [1, 1], data = [0]\<rparr>,
        \<lparr>input_dim = 1, output_dim = 1, verbose = False, params = \<lparr>shape = [1, 1], data = [0]\<rparr>\<rparr>,
        [PStr ''... Newton-Raphson:''])"
  by (simp add: fit_defs demo_defs np_eval)

lemma broadcast_shapes_matrix:
  "broadcast_shapes [n, k] [m, k'] =
     (if broadcastable n m \<and> broadcastable k k'
      then Inr [if n = m \<or> m = 1 then n else m, if k = k' \<or> k' = 1 then k else k']
      else Inl ValueError)"
  by (auto simp: broadcast_shapes_def broadcastable_def)

text \<open>The first evaluation of the objective on a sample matrix, a parameter matrix and a
  label matrix, with a softmax that keeps the shape of its argument: it raises
  ValueError exactly when the inner dimensions differ or the label matrix cannot be
  broadcast against the posterior.\<close>

lemma objective_function_matrix_shapes:
  assumes "shape x = [n, d]" and "shape p = [d, k]" and "shape y = [m, k']"
    and "\<forall>z. shape z = [n, k] \<longrightarrow> (\<exists>q. softmax E z = Inr q \<and> shape q = [n, k])"
  shows "if broadcastable n m \<and> broadcastable k k'
         then \<exists>v. objective_function E x y (shape p) p = Inr v
         else objective_function E x y (shape p) p = Inl ValueError"
proof -
  obtain z where z: "np_dot x p = Inr z" "shape z = [n, k]"
    using np_dot_matrix [OF assms(1,2)] by auto
  obtain q where q: "softmax E z = Inr q" "shape q = [n, k]" using assms(4) z(2) by blast
  show ?thesis
  proof (cases "broadcastable n m \<and> broadcastable k k'")
    case True
    then obtain pw where pw: "np_power q y = Inr pw"
      and "shape pw = [if n = m \<or> m = 1 then n else m, if k = k' \<or> k' = 1 then k else k']"
      by (simp add: np_power_def q(2) assms(3) broadcast_shapes_matrix)
    then obtain l where "np_prod_axis1 pw = Inr l"
      using np_prod_axis1_matrix by blast
    with True pw show ?thesis
      by (simp add: objective_function_def np_reshape_same z q)
  next
    case False
    then have "np_power q y = Inl ValueError"
      by (simp add: np_power_def q(2) assms(3) broadcast_shapes_matrix)
    with False show ?thesis
      by (simp add: objective_function_def np_reshape_same z q)
  qed
qed

text \<open>
  C7, amended. \<open>fit\<close> has no shape check of its own: its shape errors are the
  ValueErrors of the numpy operations in the first evaluation of the objective, which
  happens before the method is looked at. For samples \<open>x\<close> of shape \<open>n \<times> d'\<close> and stored
  parameters of shape \<open>d \<times> k\<close>:
  \<^item> when \<open>d' \<noteq> d\<close>, \<open>fit\<close> raises ValueError (from \<open>np.dot\<close>), prints nothing and leaves
    the classifier as it was;
  \<^item> when \<open>d' = d\<close>, the labels are an \<open>m \<times> k'\<close> matrix and the softmax keeps the shape of
    its argument, \<open>fit\<close> raises ValueError (from the power \<open>**\<close>), prints nothing and
    leaves the classifier as it was exactly when \<open>m\<close> and \<open>n\<close>, or \<open>k'\<close> and \<open>k\<close>, are
    different and neither is 1; in every other case, also with different sample
    counts one of which is 1, the objective is computed and \<open>fit\<close> with method
    \<open>'Newton-Raphson'\<close> and a budget of zero passes returns the stored parameters.
\<close>

theorem fit_shape_mismatch_value_error:
  assumes "expand_labels (output_dim c) y = Inr yy"
    and "shape x = [n, d']"
    and "shape (params c) = [d, k]"
  shows "(d' \<noteq> d \<longrightarrow> fit E c x y method max_iter = (Inl ValueError, c, []))
         \<and> (d' = d \<and> shape yy = [m, k'] \<and>
              (\<forall>z. shape z = [n, k] \<longrightarrow> (\<exists>q. softmax E z = Inr q \<and> shape q = [n, k])) \<longrightarrow>
              (if broadcastable n m \<and> broadcastable k k'
               then fst (fit E c x y ''Newton-Raphson'' 0) = Inr (params c)
               else fit E c x y method max_iter = (Inl ValueError, c, [])))"
proof (intro conjI impI)
  assume "d' \<noteq> d"
  then have "np_dot x (params c) = Inl ValueError"
    using assms(2,3) by (simp add: np_dot_def Let_def)
  then have "objective_function E x yy (shape (params c)) (params c) = Inl ValueError"
    by (simp add: objective_function_def np_reshape_same)
  then show "fit E c x y method max_iter = (Inl ValueError, c, [])"
    by (simp add: fit_def assms(1))
next
  assume a: "d' = d \<and> shape yy = [m, k'] \<and>
       (\<forall>z. shape z = [n, k] \<longrightarrow> (\<exists>q. softmax E z = Inr q \<and> shape q = [n, k]))"
  then have x: "shape x = [n, d]" using assms(2) by simp
  from a have yy: "shape yy = [m, k']"
    and sm: "\<forall>z. shape z = [n, k] \<longrightarrow> (\<exists>q. softmax E z = Inr q \<and> shape q = [n, k])"
    by simp_all
  note ob = objective_function_matrix_shapes [OF x assms(3) yy sm]
  show "if broadcastable n m \<and> broadcastable k k'
        then fst (fit E c x y ''Newton-Raphson'' 0) = Inr (params c)
        else fit E c x y method max_iter = (Inl ValueError, c, [])"
  proof (cases "broadcastable n m \<and> broadcastable k k'")
    case True
    with ob obtain v where "objective_function E x yy (shape (params c)) (params c) = Inr v"
      by auto
    with True show ?thesis
      by (simp add: fit_def assms(1) fit_newton_raphson_def np_reshape_same)
  next
    case False
    with ob have "objective_function E x yy (shape (params c)) (params c) = Inl ValueError"
      by auto
    with False show ?thesis by (simp add: fit_def assms(1))
  qed
qed

text \<open>On the classifier with a \<open>2 \<times> 2\<close> parameter matrix: three columns in \<open>x\<close>; three
  label rows against two samples; three label columns against two classes; and a
  single sample against two label rows, which is accepted.\<close>

theorem fit_shape_mismatch_value_error_witness:
  "fit (demo_externals away_step) (zero_classifier True) \<lparr>shape = [2, 3], data = [1, 0, 0, 0, 1, 0]\<rparr>
     (NdArray doc_y) ''Newton-Raphson'' 20
     = (Inl ValueError, zero_classifier True, [])
   \<and> fit (demo_externals away_step) (zero_classifier True) doc_x
       (NdArray \<lparr>shape = [3, 2], data = [1, 0, 0, 1, 1, 0]\<rparr>) ''Newton-Raphson'' 20
     = (Inl ValueError, zero_classifier True, [])
   \<and> fit (demo_externals away_step) (zero_classifier True) doc_x
       (NdArray \<lparr>shape = [2, 3], data = [1, 0, 0, 0, 1, 0]\<rparr>) ''Newton-Raphson'' 20
     = (Inl ValueError, zero_classifier True, [])
   \<and> fst (fit (demo_externals away_step) (zero_classifier True) \<lparr>shape = [1, 2], data = [1, 0]\<rparr>
            (NdArray doc_y) ''Newton-Raphson'' 0)
     = Inr \<lparr>shape = [2, 2], data = [0, 0, 0, 0]\<rparr>"
proof -
  let ?c = "zero_classifier True"
  let ?E = "demo_externals away_step"
  have pc: "shape (params ?c) = [2, 2]" by (simp add: zero_classifier_def)
  have ex: "expand_labels (output_dim ?c) (NdArray a) = Inr a" for a
    by (simp add: expand_labels_def)
  have sm: "\<forall>z. shape z = [n, 2] \<longrightarrow> (\<exists>q. softmax ?E z = Inr q \<and> shape q = [n, 2])" for n
    by (simp add: demo_externals_def softmax_spec_def)
  have x3: "shape \<lparr>shape = [2, 3], data = [1, 0, 0, 0, 1, 0 :: real]\<rparr> = [2, 3]" by simp
  have x2: "shape doc_x = [2, 2]" by (simp add: doc_x_def)
  have x1: "shape \<lparr>shape = [1, 2], data = [1, 0 :: real]\<rparr> = [1, 2]" by simp
  have a: "fit ?E ?c \<lparr>shape = [2, 3], data = [1, 0, 0, 0, 1, 0]\<rparr> (NdArray doc_y) ''Newton-Raphson'' 20
             = (Inl ValueError, ?c, [])"
    using fit_shape_mismatch_value_error
            [OF ex x3 pc, where E = ?E and max_iter = 20]
    by simp
  have b: "fit ?E ?c doc_x (NdArray \<lparr>shape = [3, 2], data = [1, 0, 0, 1, 1, 0]\<rparr>) ''Newton-Raphson'' 20
             = (Inl ValueError, ?c, [])"
    using fit_shape_mismatch_value_error
            [OF ex x2 pc, where E = ?E and max_iter = 20
               and m = 3 and k' = 2] sm [of 2]
    by (simp add: broadcastable_def)
  have c: "fit ?E ?c doc_x (NdArray \<lparr>shape = [2, 3], data = [1, 0, 0, 0, 1, 0]\<rparr>) ''Newton-Raphson'' 20
             = (Inl ValueError, ?c, [])"
    using fit_shape_mismatch_value_error
            [OF ex x2 pc, where E = ?E and max_iter = 20
               and m = 2 and k' = 3] sm [of 2]
    by (simp add: broadcastable_def)
  have d: "fst (fit ?E ?c \<lparr>shape = [1, 2], data = [1, 0]\<rparr> (NdArray doc_y) ''Newton-Raphson'' 0)
             = Inr \<lparr>shape = [2, 2], data = [0, 0, 0, 0]\<rparr>"
    using fit_shape_mismatch_value_error
            [OF ex x1 pc, where E = ?E and max_iter = 0
               and m = 2 and k' = 2] sm [of 1]
    by (simp add: broadcastable_def doc_y_def zero_classifier_def)
  show ?thesis using a b c d by blast
qed

subsection \<open>Every other method\<close>

lemma fit_minimize_unfold:
  "fit_minimize E c x yy method =
     (case minimize E (obj E x yy (shape (params c))) ((params c)\<lparr>shape := [np_size (params c)]\<rparr>)
             (grd E x yy (shape (params c))) (hsn E x yy (shape (params c))) method
             \<lparr>maxiter = 100, xtol = 1 / 10 ^ 4, disp = True\<rparr> of
        (Inl e, out) \<Rightarrow> (Inl e, c, out)
      | (Inr res, out) \<Rightarrow>
          if np_size res = np_size (params c)
          then (Inr res, c\<lparr>params := res\<lparr>shape := shape (params c)\<rparr>\<rparr>, out)
          else (Inl ValueError, c, out))"
  by (simp add: fit_minimize_def fit_options_def np_reshape_def np_size_def
        split: sum.splits prod.splits)

text \<open>
  C8. For every method string other than \<open>'Newton-Raphson'\<close>, once the labels are
  expanded and the objective is evaluated at the stored parameters, \<open>fit\<close> is the call
  of \<open>minimize\<close> with that method string, the flattened parameters, the three
  callbacks and \<open>disp\<close> set: it raises what the solver raises; otherwise it returns the
  solver's result and stores it reshaped (ValueError if the size does not fit); what
  is printed is the solver's report. It never returns without that call. The callbacks
  are the negated routines at the parameters reshaped to the stored shape: \<open>obj\<close> yields
  \<open>u\<close> exactly where the objective yields \<open>- u\<close>; \<open>grd\<close> yields \<open>g\<close> exactly where
  \<open>gradient\<close>, called with the samples, the labels, the posterior
  \<open>softmax (x \<cdot> params)\<close> and weights 1, yields an array whose squeezed negation is \<open>g\<close>;
  \<open>hsn\<close> yields \<open>h\<close> exactly where \<open>hessian\<close>, called with the same arguments, yields an
  array whose negation is \<open>h\<close>.
\<close>

theorem other_method_uses_minimize:
  assumes "method \<noteq> ''Newton-Raphson''"
    and "expand_labels (output_dim c) y = Inr yy"
    and "objective_function E x yy (shape (params c)) (params c) = Inr v"
  shows "fit E c x y method max_iter =
           (case minimize E (obj E x yy (shape (params c)))
                   ((params c)\<lparr>shape := [np_size (params c)]\<rparr>)
                   (grd E x yy (shape (params c))) (hsn E x yy (shape (params c))) method
                   \<lparr>maxiter = 100, xtol = 1 / 10 ^ 4, disp = True\<rparr> of
              (Inl e, out) \<Rightarrow> (Inl e, c, out)
            | (Inr res, out) \<Rightarrow>
                if np_size res = np_size (params c)
                then (Inr res, c\<lparr>params := res\<lparr>shape := shape (params c)\<rparr>\<rparr>, out)
                else (Inl ValueError, c, out))
         \<and> (\<forall>p u. obj E x yy (shape (params c)) p = Inr u
                \<longleftrightarrow> objective_function E x yy (shape (params c)) p = Inr (- u))
         \<and> (\<forall>p g. grd E x yy (shape (params c)) p = Inr g
                \<longleftrightarrow> (\<exists>p2 z post w g0.
                       np_reshape p (shape (params c)) = Inr p2 \<and> np_dot x p2 = Inr z
                       \<and> softmax E z = Inr post \<and> np_ones_rows yy = Inr w
                       \<and> gradient E x yy post w = Inr g0 \<and> g = np_negative (np_squeeze g0)))
         \<and> (\<forall>p h. hsn E x yy (shape (params c)) p = Inr h
                \<longleftrightarrow> (\<exists>p2 z post w h0.
                       np_reshape p (shape (params c)) = Inr p2 \<and> np_dot x p2 = Inr z
                       \<and> softmax E z = Inr post \<and> np_ones_rows yy = Inr w
                       \<and> hessian E x yy post w = Inr h0 \<and> h = np_negative h0))"
proof -
  let ?shp = "shape (params c)"
  have a: "fit E c x y method max_iter = fit_minimize E c x yy method"
    using assms by (simp add: fit_def)
  note b = fit_minimize_unfold [of E c x yy "method"]
  have o: "obj E x yy ?shp p = Inr u \<longleftrightarrow> objective_function E x yy ?shp p = Inr (- u)" for p u
    by (cases "objective_function E x yy ?shp p") (auto simp: obj_def)
  have g: "grd E x yy ?shp p = Inr g
             \<longleftrightarrow> (\<exists>p2 z post w g0.
                    np_reshape p ?shp = Inr p2 \<and> np_dot x p2 = Inr z
                    \<and> softmax E z = Inr post \<and> np_ones_rows yy = Inr w
                    \<and> gradient E x yy post w = Inr g0 \<and> g = np_negative (np_squeeze g0))" for p g
    by (auto simp: grd_def bind_result_eq_Inr)
  have h: "hsn E x yy ?shp p = Inr h
             \<longleftrightarrow> (\<exists>p2 z post w h0.
                    np_reshape p ?shp = Inr p2 \<and> np_dot x p2 = Inr z
                    \<and> softmax E z = Inr post \<and> np_ones_rows yy = Inr w
                    \<and> hessian E x yy post w = Inr h0 \<and> h = np_negative h0)" for p h
    by (auto simp: hsn_def bind_result_eq_Inr)
  show ?thesis
    unfolding a b using o g h by blast
qed

text \<open>An unrecognised method string on the docstring data. The solver of the examples
  steps against the gradient callback, which at zero parameters is the negated
  posterior: every parameter moves from 0 to 1/2, the result is returned flat and
  stored as a \<open>2 \<times> 2\<close> matrix, and the solver's line is the output.\<close>

theorem other_method_uses_minimize_witness:
  "grd (demo_externals away_step) doc_x doc_y [2, 2] \<lparr>shape = [4], data = [0, 0, 0, 0]\<rparr>
     = Inr \<lparr>shape = [2, 2], data = [- (1 / 2), - (1 / 2), - (1 / 2), - (1 / 2)]\<rparr>
   \<and> fit (demo_externals away_step) (zero_classifier True) doc_x (NdArray doc_y) ''no-such-solver'' 20
     = (Inr \<lparr>shape = [4], data = [1 / 2, 1 / 2, 1 / 2, 1 / 2]\<rparr>,
        (zero_classifier True)\<lparr>params := \<lparr>shape = [2, 2], data = [1 / 2, 1 / 2, 1 / 2, 1 / 2]\<rparr>\<rparr>,
        [PStr ''Optimization terminated successfully.''])"
proof -
  let ?c = "zero_classifier True"
  let ?E = "demo_externals away_step"
  have pc: "params ?c = \<lparr>shape = [2, 2], data = [0, 0, 0, 0]\<rparr>"
    by (simp add: zero_classifier_def)
  have h1: "''no-such-solver'' \<noteq> ''Newton-Raphson''" by simp
  have h2: "expand_labels (output_dim ?c) (NdArray doc_y) = Inr doc_y"
    by (simp add: expand_labels_def)
  have h3: "objective_function ?E doc_x doc_y (shape (params ?c)) (params ?c)
              = Inr (2 * ln (1 / 2 + 1 / 10 ^ 7))"
    using demo_objective_at_zero [of away_step] by (simp add: pc)
  have g: "grd ?E doc_x doc_y [2, 2] \<lparr>shape = [4], data = [0, 0, 0, 0]\<rparr>
             = Inr \<lparr>shape = [2, 2], data = [- (1 / 2), - (1 / 2), - (1 / 2), - (1 / 2)]\<rparr>"
    by (simp add: grd_def demo_defs np_eval)
  have m: "minimize ?E f \<lparr>shape = [4], data = [0, 0, 0, 0]\<rparr> (grd ?E doc_x doc_y [2, 2]) h s opts
           = (Inr \<lparr>shape = [4], data = [1 / 2, 1 / 2, 1 / 2, 1 / 2]\<rparr>,
              [PStr ''Optimization terminated successfully.''])" if "disp opts" for f h s opts
    using that by (simp add: demo_externals_def g [unfolded demo_externals_def])
  have "fit ?E ?c doc_x (NdArray doc_y) ''no-such-solver'' 20
     = (Inr \<lparr>shape = [4], data = [1 / 2, 1 / 2, 1 / 2, 1 / 2]\<rparr>,
        ?c\<lparr>params := \<lparr>shape = [2, 2], data = [1 / 2, 1 / 2, 1 / 2, 1 / 2]\<rparr>\<rparr>,
        [PStr ''Optimization terminated successfully.''])"
    using other_method_uses_minimize [OF h1 h2 h3, of 20]
    by (simp add: m pc np_size_def)
  with g show ?thesis by simp
qed

subsection \<open>The shape of the stored parameters\<close>

lemma fit_newton_raphson_shape:
  "shape (params (fst (snd (fit_newton_raphson E c x yy n v)))) = shape (params c)"
  by (auto simp: fit_newton_raphson_def Let_def np_reshape_shape split: prod.splits sum.splits)

lemma fit_minimize_shape:
  "shape (params (fst (snd (fit_minimize E c x yy m)))) = shape (params c)"
  by (auto simp: fit_minimize_def Let_def np_reshape_shape split: prod.splits sum.splits)

text \<open>
  C9. The constructor stores a parameter matrix of shape \<open>input_dim \<times> output_dim\<close>, and
  after every \<open>fit\<close> call, with any method string, whether it returns or raises, the
  stored matrix has the shape it had before the call.
\<close>

theorem params_shape_invariant:
  "shape (params (init rnd d k vb)) = [input_dim (init rnd d k vb), output_dim (init rnd d k vb)]
   \<and> shape (params (fst (snd (fit E c x y method max_iter)))) = shape (params c)"
  by (simp add: init_def np_random_rand_def Let_def fit_def fit_newton_raphson_shape fit_minimize_shape
        split: sum.splits)

theorem params_shape_invariant_witness:
  "shape (params (init (\<lambda>i. 1 / 2) 2 2 True)) = [2, 2]
   \<and> shape (params (fst (snd (fit (demo_externals away_step) (init (\<lambda>i. 1 / 2) 2 2 True) doc_x
                                  (NdArray doc_y) ''Newton-Raphson'' 20)))) = [2, 2]"
  using params_shape_invariant [of "\<lambda>i. 1 / 2" 2 2 True "demo_externals away_step"
          "init (\<lambda>i. 1 / 2) 2 2 True" doc_x "NdArray doc_y" "''Newton-Raphson''" 20]
  by (simp add: init_def)

end
